theory Spec2Isabelle
  imports Complex_Main
begin

section \<open>JavaScript values used by the filter-highlight components\<close>

text \<open>
  A JavaScript number as the overlay handles it is either a finite value or \<open>NaN\<close>. Finite
  values are reals and the arithmetic of the overlay is exact: rounding and overflow to an
  infinity are not modelled there, and what is proved of the overlay (minimum, absolute
  difference, sign, symmetry) does not depend on them. \<open>NaN\<close> is kept, because it is what
  the arithmetic of the source produces from a property that is missing. The filter view
  computes with the doubles of the section on double arithmetic.
\<close>

datatype jsnum = Fin real | NaN

text \<open>
  The values a coordinate can hold in this model: \<open>undefined\<close> (a missing property),
  \<open>null\<close>, or a number. Strings, booleans and nested objects as coordinates are outside
  the model.
\<close>

datatype jsval = JUndefined | JNull | JNumber jsnum

fun ToNumber :: "jsval \<Rightarrow> jsnum" where
  "ToNumber JUndefined = NaN"
| "ToNumber JNull = Fin 0"
| "ToNumber (JNumber n) = n"

fun num_add :: "jsnum \<Rightarrow> jsnum \<Rightarrow> jsnum" where
  "num_add (Fin a) (Fin b) = Fin (a + b)"
| "num_add _ _ = NaN"

fun num_sub :: "jsnum \<Rightarrow> jsnum \<Rightarrow> jsnum" where
  "num_sub (Fin a) (Fin b) = Fin (a - b)"
| "num_sub _ _ = NaN"

text \<open>The operator \<open>+\<close> on two values that are not strings: both are converted to numbers.\<close>

definition js_add :: "jsval \<Rightarrow> jsval \<Rightarrow> jsnum" where
  "js_add a b = num_add (ToNumber a) (ToNumber b)"

fun Math_min :: "jsnum \<Rightarrow> jsnum \<Rightarrow> jsnum" where
  "Math_min (Fin a) (Fin b) = Fin (min a b)"
| "Math_min _ _ = NaN"

fun Math_abs :: "jsnum \<Rightarrow> jsnum" where
  "Math_abs (Fin a) = Fin \<bar>a\<bar>"
| "Math_abs NaN = NaN"


section \<open>Double arithmetic\<close>

text \<open>
  Where a result is compared with an exact expression, the rounding of the arithmetic
  matters, and the operations are those of IEEE 754 binary64 with rounding to nearest,
  ties to even: the exact result is rounded to 53 significant bits (fewer for the
  subnormal numbers below 2 ^ -1022), and to an infinity from 2 ^ 1024 on. The sign of a
  zero is not kept.
\<close>

datatype dbl = Finite real | PosInfinity | NegInfinity | NotANumber

definition pow2 :: "int \<Rightarrow> real" where
  "pow2 e = (if 0 \<le> e then 2 ^ nat e else 1 / 2 ^ nat (- e))"

text \<open>
  The exponent \<open>e\<close> of the spacing 2 ^ e of the doubles around \<open>a > 0\<close>: the one with
  2 ^ 52 \<le> a / 2 ^ e < 2 ^ 53, and -1074 for the subnormal numbers. The search starts at
  0 and takes at most as many steps as the first argument allows; 2200 steps reach every
  sum of two doubles.
\<close>

fun quantum_exp :: "nat \<Rightarrow> real \<Rightarrow> int \<Rightarrow> int" where
  "quantum_exp 0 a e = e"
| "quantum_exp (Suc n) a e =
     (if 2 ^ 53 \<le> a / pow2 e then quantum_exp n a (e + 1)
      else if a / pow2 e < 2 ^ 52 \<and> - 1074 < e then quantum_exp n a (e - 1)
      else e)"

definition round_half_even :: "real \<Rightarrow> int" where
  "round_half_even m =
     (let f = \<lfloor>m\<rfloor>; r = m - of_int f
      in if r < 1 / 2 then f else if 1 / 2 < r then f + 1 else if even f then f else f + 1)"

definition quantize :: "real \<Rightarrow> int \<Rightarrow> real" where
  "quantize a e = of_int (round_half_even (a / pow2 e)) * pow2 e"

definition round_double :: "real \<Rightarrow> dbl" where
  "round_double x =
     (if x = 0 then Finite 0
      else (let r = quantize \<bar>x\<bar> (quantum_exp 2200 \<bar>x\<bar> 0)
            in if 2 ^ 1024 \<le> r then (if 0 < x then PosInfinity else NegInfinity)
               else Finite (if 0 < x then r else - r)))"

fun dbl_add :: "dbl \<Rightarrow> dbl \<Rightarrow> dbl" where
  "dbl_add (Finite a) (Finite b) = round_double (a + b)"
| "dbl_add NotANumber b = NotANumber"
| "dbl_add a NotANumber = NotANumber"
| "dbl_add PosInfinity NegInfinity = NotANumber"
| "dbl_add NegInfinity PosInfinity = NotANumber"
| "dbl_add PosInfinity b = PosInfinity"
| "dbl_add a PosInfinity = PosInfinity"
| "dbl_add NegInfinity b = NegInfinity"
| "dbl_add a NegInfinity = NegInfinity"

text \<open>Division by the literal \<open>2\<close>.\<close>

fun dbl_div2 :: "dbl \<Rightarrow> dbl" where
  "dbl_div2 (Finite a) = round_double (a / 2)"
| "dbl_div2 PosInfinity = PosInfinity"
| "dbl_div2 NegInfinity = NegInfinity"
| "dbl_div2 NotANumber = NotANumber"

text \<open>A coordinate converted to a number; a number that is given is taken to be a double.\<close>

fun to_dbl :: "jsval \<Rightarrow> dbl" where
  "to_dbl JUndefined = NotANumber"
| "to_dbl JNull = Finite 0"
| "to_dbl (JNumber (Fin a)) = Finite a"
| "to_dbl (JNumber NaN) = NotANumber"

section \<open>The page-rendering viewer, as the overlay reads it\<close>

text \<open>
  The location handed to \<open>showHighlight\<close>: \<open>null\<close>, \<open>undefined\<close>, or an object whose
  properties \<open>x\<close>, \<open>y\<close>, \<open>width\<close> and \<open>height\<close> are read by destructuring (a property that is
  absent reads as \<open>JUndefined\<close>).
\<close>

record rect =
  loc_x :: jsval
  loc_y :: jsval
  loc_width :: jsval
  loc_height :: jsval

datatype location = LocNull | LocUndefined | LocObj rect

text \<open>
  A page view exposes its container \<open>div\<close> (\<open>None\<close> when the property is falsy) and its
  viewport; \<open>convertToViewportPoint\<close> belongs to the viewer and is a parameter here. It
  receives the two arguments as the source passes them and returns a two-entry array.
\<close>

record pageView =
  pv_div :: "nat option"
  convertToViewportPoint :: "jsval \<Rightarrow> jsval \<Rightarrow> jsnum \<times> jsnum"

record pdf_viewer =
  pages :: "pageView list option"

record pdf_sidebar =
  sidebar_pdfViewer :: "pdf_viewer option"

record application =
  app_pdfViewer :: "pdf_viewer option"
  app_pdfSidebar :: "pdf_sidebar option"

record window =
  PDFViewerApplication :: "application option"

section \<open>FilterHighlightOverlay\<close>

text \<open>
  An overlay element with the style properties the source assigns. Lengths are kept as the
  number in front of the unit \<open>px\<close>. \<open>parentNode\<close> is the page container the element is
  attached to, \<open>None\<close> once it has been removed from the document.
\<close>

record element =
  className :: string
  parentNode :: "nat option"
  style_position :: string
  style_left :: jsnum
  style_top :: jsnum
  style_width :: jsnum
  style_height :: jsnum
  style_backgroundColor :: string
  style_border :: string
  style_pointerEvents :: string
  style_zIndex :: string
  style_transition :: string
  style_opacity :: "string option"

datatype js_error = TypeError

text \<open>
  The two callbacks the component hands to \<open>setTimeout\<close>: the one of \<open>showHighlight\<close>, which
  closes over the page number and the location, and the one of \<open>clearHighlight\<close>.
\<close>

datatype task = ShowTask int location | RemoveTask

text \<open>
  The state of the component and of the part of the browser it acts on. Elements live in
  \<open>elements\<close> and are referred to by their index; \<open>timers\<close> are the pending \<open>setTimeout\<close>
  callbacks with the time they are due, in the order they were set; \<open>frames\<close> are the
  elements whose fade-in waits for the next animation frame; \<open>now\<close> is the clock in
  milliseconds; \<open>uncaught\<close> collects the exceptions that left a timer callback.
\<close>

record overlay_state =
  currentOverlay :: "nat option"
  elements :: "element list"
  timers :: "(nat \<times> task) list"
  frames :: "nat list"
  now :: nat
  uncaught :: "js_error list"
  win :: window

definition getPageView :: "window \<Rightarrow> int \<Rightarrow> pageView option" where
  "getPageView w pageNumber =
     (let pdfViewer =
        (case PDFViewerApplication w of
           None \<Rightarrow> None
         | Some app \<Rightarrow>
             (case app_pdfViewer app of
                Some v \<Rightarrow> Some v
              | None \<Rightarrow>
                  (case app_pdfSidebar app of
                     None \<Rightarrow> None
                   | Some sb \<Rightarrow> sidebar_pdfViewer sb)))
      in case pdfViewer of
           None \<Rightarrow> None
         | Some v \<Rightarrow>
             (case pages v of
                None \<Rightarrow> None
              | Some ps \<Rightarrow>
                  if 0 \<le> pageNumber - 1 \<and> pageNumber - 1 < int (length ps)
                  then Some (ps ! nat (pageNumber - 1))
                  else None))"

text \<open>
  \<open>#createOverlayElement\<close>. Destructuring \<open>null\<close> or \<open>undefined\<close> throws a \<open>TypeError\<close>
  before anything is created. Otherwise the new element is appended to the page container
  and its fade-in is queued for the next animation frame; the result is the reference to
  the element (\<open>None\<close> for the \<open>null\<close> the source returns).
\<close>

definition createOverlayElement ::
  "pageView \<Rightarrow> location \<Rightarrow> overlay_state \<Rightarrow> js_error + (nat option \<times> overlay_state)" where
  "createOverlayElement pageView loc s =
     (case pv_div pageView of
        None \<Rightarrow> Inr (None, s)
      | Some d \<Rightarrow>
          (case loc of
             LocNull \<Rightarrow> Inl TypeError
           | LocUndefined \<Rightarrow> Inl TypeError
           | LocObj r \<Rightarrow>
               (let left = loc_x r;
                    bottom = loc_y r;
                    right = js_add (loc_x r) (loc_width r);
                    top = js_add (loc_y r) (loc_height r);
                    topLeft = convertToViewportPoint pageView left (JNumber top);
                    bottomRight = convertToViewportPoint pageView (JNumber right) bottom;
                    overlay = \<lparr> className = ''filterHighlightOverlay'',
                                parentNode = Some d,
                                style_position = ''absolute'',
                                style_left = Math_min (fst topLeft) (fst bottomRight),
                                style_top = Math_min (snd topLeft) (snd bottomRight),
                                style_width = Math_abs (num_sub (fst bottomRight) (fst topLeft)),
                                style_height = Math_abs (num_sub (snd bottomRight) (snd topLeft)),
                                style_backgroundColor = ''rgba(255, 255, 0, 0.3)'',
                                style_border = ''2px solid rgba(255, 200, 0, 0.8)'',
                                style_pointerEvents = ''none'',
                                style_zIndex = ''1000'',
                                style_transition = ''opacity 0.3s ease-in-out'',
                                style_opacity = None \<rparr>;
                    ref = length (elements s)
                in Inr (Some ref,
                        s\<lparr> elements := elements s @ [overlay],
                           frames := frames s @ [ref] \<rparr>))))"

text \<open>
  \<open>clearHighlight\<close>: with a current overlay, its opacity is set to \<open>"0"\<close> and the removal is
  handed to \<open>setTimeout\<close> with 300 ms; without one nothing happens.
\<close>

definition clearHighlight :: "overlay_state \<Rightarrow> overlay_state" where
  "clearHighlight s =
     (case currentOverlay s of
        None \<Rightarrow> s
      | Some ov \<Rightarrow>
          s\<lparr> elements := (elements s)[ov := (elements s ! ov)\<lparr>style_opacity := Some ''0''\<rparr>],
             timers := timers s @ [(now s + 300, RemoveTask)] \<rparr>)"

text \<open>
  The callback of \<open>clearHighlight\<close>: it removes whatever \<open>#currentOverlay\<close> refers to when
  it runs, and resets the field.
\<close>

definition clearHighlight_callback :: "overlay_state \<Rightarrow> overlay_state" where
  "clearHighlight_callback s =
     (case currentOverlay s of
        None \<Rightarrow> s
      | Some ov \<Rightarrow> s\<lparr> elements := (elements s)[ov := (elements s ! ov)\<lparr>parentNode := None\<rparr>] \<rparr>)
     \<lparr> currentOverlay := None \<rparr>"

text \<open>\<open>showHighlight\<close>: clear, then hand the rest to \<open>setTimeout\<close> with 500 ms.\<close>

definition showHighlight :: "int \<Rightarrow> location \<Rightarrow> overlay_state \<Rightarrow> overlay_state" where
  "showHighlight pageNumber loc s =
     (let s1 = clearHighlight s
      in s1\<lparr> timers := timers s1 @ [(now s1 + 500, ShowTask pageNumber loc)] \<rparr>)"

definition showHighlight_callback ::
  "int \<Rightarrow> location \<Rightarrow> overlay_state \<Rightarrow> js_error + overlay_state" where
  "showHighlight_callback pageNumber loc s =
     (case getPageView (win s) pageNumber of
        None \<Rightarrow> Inr s
      | Some pageView \<Rightarrow>
          (case createOverlayElement pageView loc s of
             Inl e \<Rightarrow> Inl e
           | Inr (None, s') \<Rightarrow> Inr s'
           | Inr (Some overlay, s') \<Rightarrow> Inr (s'\<lparr> currentOverlay := Some overlay \<rparr>)))"

section \<open>Timers and animation frames\<close>

text \<open>
  Running one timer callback. An exception leaves the callback uncaught; the only one the
  component can throw is raised before the callback has changed anything.
\<close>

fun run_task :: "task \<Rightarrow> overlay_state \<Rightarrow> overlay_state" where
  "run_task (ShowTask pageNumber loc) s =
     (case showHighlight_callback pageNumber loc s of
        Inl e \<Rightarrow> s\<lparr> uncaught := uncaught s @ [e] \<rparr>
      | Inr s' \<Rightarrow> s')"
| "run_task RemoveTask s = clearHighlight_callback s"

definition fire :: "overlay_state \<Rightarrow> nat \<times> task \<Rightarrow> overlay_state" where
  "fire s tk = run_task (snd tk) (s\<lparr> now := fst tk \<rparr>)"

text \<open>
  Letting \<open>d\<close> milliseconds pass: the timers due by then run in the order of their due
  time, those due at the same time in the order they were set; the others stay pending.
  No callback of the component sets a timer, so the timers due are known beforehand.
\<close>

definition advance :: "nat \<Rightarrow> overlay_state \<Rightarrow> overlay_state" where
  "advance d s =
     (let lim = now s + d;
          due = filter (\<lambda>tk. fst tk \<le> lim) (timers s);
          rest = filter (\<lambda>tk. \<not> fst tk \<le> lim) (timers s)
      in (foldl fire (s\<lparr> timers := rest \<rparr>) (sort_key fst due))\<lparr> now := lim \<rparr>)"

text \<open>The next animation frame: every queued fade-in sets the opacity to \<open>"1"\<close>.\<close>

definition fadeIn :: "overlay_state \<Rightarrow> nat \<Rightarrow> overlay_state" where
  "fadeIn s ref = s\<lparr> elements := (elements s)[ref := (elements s ! ref)\<lparr>style_opacity := Some ''1''\<rparr>] \<rparr>"

definition animationFrame :: "overlay_state \<Rightarrow> overlay_state" where
  "animationFrame s = foldl fadeIn (s\<lparr> frames := [] \<rparr>) (frames s)"

text \<open>The overlay elements that are in the document.\<close>

definition attached :: "overlay_state \<Rightarrow> nat list" where
  "attached s = filter (\<lambda>i. parentNode (elements s ! i) \<noteq> None) [0 ..< length (elements s)]"

text \<open>A freshly constructed component in a browser with the given \<open>window\<close>.\<close>

definition initial :: "window \<Rightarrow> overlay_state" where
  "initial w = \<lparr> currentOverlay = None, elements = [], timers = [], frames = [], now = 0,
                 uncaught = [], win = w \<rparr>"

text \<open>
  The listener the constructor registers on the event bus: an event named
  \<open>filterhighlightselected\<close> calls \<open>showHighlight\<close> with the page number and the location
  object the event carries.
\<close>

record highlight_event =
  evt_source :: nat
  evt_pageNumber :: int
  evt_location :: rect

definition on_event :: "string \<Rightarrow> highlight_event \<Rightarrow> overlay_state \<Rightarrow> overlay_state" where
  "on_event name evt s =
     (if name = ''filterhighlightselected''
      then showHighlight (evt_pageNumber evt) (LocObj (evt_location evt)) s
      else s)"

section \<open>PDFFilterView\<close>

text \<open>
  The \<open>location\<close> of a highlight record as it comes from the highlights file: any value,
  of which an array holds coordinates.
\<close>

datatype hl_location =
    HUndefined
  | HNull
  | HBool bool
  | HNumber jsnum
  | HString string
  | HArray "jsval list"
  | HObject "(string \<times> jsval) list"

fun truthy :: "hl_location \<Rightarrow> bool" where
  "truthy HUndefined = False"
| "truthy HNull = False"
| "truthy (HBool b) = b"
| "truthy (HNumber (Fin a)) = (a \<noteq> 0)"
| "truthy (HNumber NaN) = False"
| "truthy (HString str) = (str \<noteq> [])"
| "truthy (HArray xs) = True"
| "truthy (HObject ps) = True"

fun isArray :: "hl_location \<Rightarrow> bool" where
  "isArray (HArray xs) = True"
| "isArray _ = False"

text \<open>\<open>location.length === n\<close>; only strings and arrays have a length.\<close>

fun length_is :: "hl_location \<Rightarrow> nat \<Rightarrow> bool" where
  "length_is (HArray xs) n = (length xs = n)"
| "length_is (HString str) n = (length str = n)"
| "length_is _ n = False"

fun entries :: "hl_location \<Rightarrow> jsval list" where
  "entries (HArray xs) = xs"
| "entries _ = []"

record highlightData =
  hd_page :: int
  hd_text :: string
  hd_location :: hl_location

record linkService =
  ls_pdfViewer :: "pdf_viewer option"

record filter_view =
  fv_id :: nat
  fv_highlightData :: highlightData
  fv_linkService :: linkService

datatype dest_entry = DestNull | DestName string | DestNumber dbl

record scroll_params =
  pageNumber :: int
  destArray :: "dest_entry list"
  allowNegativeOffset :: bool
  center :: string

text \<open>What a click does to the collaborators of the view, in the order it is done.\<close>

datatype effect =
    GoToPage int
  | ScrollPageIntoView scroll_params
  | Dispatch string highlight_event

definition navigateToHighlight :: "filter_view \<Rightarrow> effect list" where
  "navigateToHighlight this =
     (let page = hd_page (fv_highlightData this);
          loc = hd_location (fv_highlightData this)
      in case ls_pdfViewer (fv_linkService this) of
           None \<Rightarrow> [GoToPage page]
         | Some pdfViewer \<Rightarrow>
             if truthy loc \<and> isArray loc \<and> length_is loc 4
             then
               (let x = entries loc ! 0;
                    y = entries loc ! 1;
                    width = entries loc ! 2;
                    height = entries loc ! 3;
                    top = dbl_add (to_dbl y) (to_dbl height);
                    bottom = y;
                    centerX = dbl_add (to_dbl x) (dbl_div2 (to_dbl width));
                    centerY = dbl_div2 (dbl_add top (to_dbl bottom))
                in [ScrollPageIntoView
                      \<lparr> pageNumber = page,
                        destArray = [DestNull, DestName ''XYZ'', DestNumber centerX,
                                     DestNumber centerY, DestNull],
                        allowNegativeOffset = True,
                        center = ''both'' \<rparr>,
                    Dispatch ''filterhighlightselected''
                      \<lparr> evt_source = fv_id this,
                        evt_pageNumber = page,
                        evt_location = \<lparr> loc_x = x, loc_y = y, loc_width = width,
                                         loc_height = height \<rparr> \<rparr>])
             else [GoToPage page])"

text \<open>The events, the scroll requests and the page navigations among the effects.\<close>

fun dispatched :: "effect list \<Rightarrow> (string \<times> highlight_event) list" where
  "dispatched [] = []"
| "dispatched (Dispatch name evt # es) = (name, evt) # dispatched es"
| "dispatched (e # es) = dispatched es"

fun scrolls :: "effect list \<Rightarrow> scroll_params list" where
  "scrolls [] = []"
| "scrolls (ScrollPageIntoView ps # es) = ps # scrolls es"
| "scrolls (e # es) = scrolls es"

fun is_four_array :: "hl_location \<Rightarrow> bool" where
  "is_four_array (HArray [a, b, c, d]) = True"
| "is_four_array _ = False"

section \<open>Reading the result of the projection\<close>

text \<open>The position and size of an element: left, top, width, height.\<close>

definition overlay_box :: "element \<Rightarrow> jsnum \<times> jsnum \<times> jsnum \<times> jsnum" where
  "overlay_box e = (style_left e, style_top e, style_width e, style_height e)"

text \<open>The element a call of \<open>createOverlayElement\<close> returned, if it returned one.\<close>

definition created_element :: "js_error + (nat option \<times> overlay_state) \<Rightarrow> element option" where
  "created_element res =
     (case res of
        Inl e \<Rightarrow> None
      | Inr (None, s') \<Rightarrow> None
      | Inr (Some ref, s') \<Rightarrow> if ref < length (elements s') then Some (elements s' ! ref) else None)"

text \<open>The identity as a point-to-viewport transform.\<close>

definition identity_transform :: "jsval \<Rightarrow> jsval \<Rightarrow> jsnum \<times> jsnum" where
  "identity_transform a b = (ToNumber a, ToNumber b)"

section \<open>Fixtures\<close>



definition example_rect :: rect where
  "example_rect = \<lparr>loc_x = JNumber (Fin 10), loc_y = JNumber (Fin (- 50)),
                    loc_width = JNumber (Fin 20), loc_height = JNumber (Fin (- 30))\<rparr>"

text \<open>A viewer with a single rendered page, whose container is node 0.\<close>

definition one_page_window :: window where
  "one_page_window =
     \<lparr>PDFViewerApplication = Some
        \<lparr>app_pdfViewer = Some
           \<lparr>pages = Some [\<lparr>pv_div = Some 0, convertToViewportPoint = identity_transform\<rparr>]\<rparr>,
         app_pdfSidebar = None\<rparr>\<rparr>"

text \<open>Two calls of \<open>showHighlight\<close> 100 ms apart on a fresh component, then 500 ms more.\<close>

definition first_show :: overlay_state where
  "first_show = showHighlight 1 (LocObj example_rect) (initial one_page_window)"

definition second_show :: overlay_state where
  "second_show = showHighlight 1 (LocObj example_rect) (advance 100 first_show)"

definition both_settled :: overlay_state where
  "both_settled = advance 500 second_show"

text \<open>One highlight shown and faded in.\<close>

definition shown :: overlay_state where
  "shown = animationFrame (advance 500 first_show)"

text \<open>
  A highlight requested at 0 ms and again at 400 ms, \<open>clearHighlight\<close> called at 700 ms, and
  the state at 1700 ms.
\<close>

definition raced :: overlay_state where
  "raced = advance 300 (showHighlight 1 (LocObj example_rect) (advance 400 first_show))"

definition raced_cleared :: overlay_state where
  "raced_cleared = advance 1000 (clearHighlight raced)"

text \<open>Windows in which no page view resolves.\<close>

definition no_application :: window where
  "no_application = \<lparr>PDFViewerApplication = None\<rparr>"

definition no_viewer :: window where
  "no_viewer = \<lparr>PDFViewerApplication = Some \<lparr>app_pdfViewer = None, app_pdfSidebar = None\<rparr>\<rparr>"

definition sidebar_without_viewer :: window where
  "sidebar_without_viewer =
     \<lparr>PDFViewerApplication = Some
        \<lparr>app_pdfViewer = None, app_pdfSidebar = Some \<lparr>sidebar_pdfViewer = None\<rparr>\<rparr>\<rparr>"

definition no_pages :: window where
  "no_pages =
     \<lparr>PDFViewerApplication = Some
        \<lparr>app_pdfViewer = Some \<lparr>pages = None\<rparr>, app_pdfSidebar = None\<rparr>\<rparr>"

definition empty_pages :: window where
  "empty_pages =
     \<lparr>PDFViewerApplication = Some
        \<lparr>app_pdfViewer = None,
         app_pdfSidebar = Some \<lparr>sidebar_pdfViewer = Some \<lparr>pages = Some []\<rparr>\<rparr>\<rparr>\<rparr>"

text \<open>
  Three filter items: one whose highlight has the coordinates of the example rectangle,
  one whose \<open>y\<close> and \<open>height\<close> are the doubles nearest to -798.6 and -39.4, and one whose
  \<open>y\<close> is 2 ^ 53 + 2, where the doubles are 2 apart.
\<close>

definition example_view :: filter_view where
  "example_view =
     \<lparr> fv_id = 1,
       fv_highlightData =
         \<lparr> hd_page = 3, hd_text = ''text'',
           hd_location = HArray [JNumber (Fin 10), JNumber (Fin (- 50)),
                                 JNumber (Fin 20), JNumber (Fin (- 30))] \<rparr>,
       fv_linkService = \<lparr> ls_pdfViewer = Some \<lparr>pages = None\<rparr> \<rparr> \<rparr>"

definition typical_view :: filter_view where
  "typical_view =
     \<lparr> fv_id = 1,
       fv_highlightData =
         \<lparr> hd_page = 1, hd_text = ''text'',
           hd_location = HArray [JNumber (Fin 10),
                                 JNumber (Fin (- (7024559887535309 / 8796093022208))),
                                 JNumber (Fin 20),
                                 JNumber (Fin (- (5545057041199923 / 140737488355328)))] \<rparr>,
       fv_linkService = \<lparr> ls_pdfViewer = Some \<lparr>pages = None\<rparr> \<rparr> \<rparr>"

definition big_view :: filter_view where
  "big_view =
     \<lparr> fv_id = 1,
       fv_highlightData =
         \<lparr> hd_page = 1, hd_text = ''text'',
           hd_location = HArray [JNumber (Fin 0), JNumber (Fin 9007199254740994),
                                 JNumber (Fin 0), JNumber (Fin 1)] \<rparr>,
       fv_linkService = \<lparr> ls_pdfViewer = Some \<lparr>pages = None\<rparr> \<rparr> \<rparr>"

text \<open>An object without any of the four properties.\<close>

definition empty_object :: rect where
  "empty_object = \<lparr>loc_x = JUndefined, loc_y = JUndefined, loc_width = JUndefined,
                    loc_height = JUndefined\<rparr>"

section \<open>The coordinate transform\<close>



lemma created_box:
  "map_option overlay_box (created_element
      (createOverlayElement \<lparr>pv_div = Some d, convertToViewportPoint = conv\<rparr> (LocObj r) s)) =
   (let tl = conv (loc_x r) (JNumber (js_add (loc_y r) (loc_height r)));
        br = conv (JNumber (js_add (loc_x r) (loc_width r))) (loc_y r)
    in Some (Math_min (fst tl) (fst br), Math_min (snd tl) (snd br),
             Math_abs (num_sub (fst br) (fst tl)), Math_abs (num_sub (snd br) (snd tl))))"
  by (simp add: createOverlayElement_def created_element_def overlay_box_def Let_def)

text \<open>
  Claim C1. With the identity as point-to-viewport transform, the rectangle
  \<open>{x: 10, y: -50, width: 20, height: -30}\<close> gives an overlay at position \<open>(10, -80)\<close> of size
  \<open>(20, 30)\<close>. For a rectangle of numbers and any transform, the projection takes
  \<open>left = x\<close>, \<open>right = x + width\<close>, \<open>bottom = y\<close>, \<open>top = y + height\<close>, transforms the
  points \<open>(left, top)\<close> and \<open>(right, bottom)\<close>, and makes the box from these two points.
\<close>

theorem overlay_identity_example:
  "map_option overlay_box (created_element
      (createOverlayElement \<lparr>pv_div = Some d, convertToViewportPoint = identity_transform\<rparr>
         (LocObj \<lparr>loc_x = JNumber (Fin 10), loc_y = JNumber (Fin (- 50)),
                  loc_width = JNumber (Fin 20), loc_height = JNumber (Fin (- 30))\<rparr>) s)) =
     Some (Fin 10, Fin (- 80), Fin 20, Fin 30)
   \<and> map_option overlay_box (created_element
      (createOverlayElement \<lparr>pv_div = Some d, convertToViewportPoint = conv\<rparr>
         (LocObj \<lparr>loc_x = JNumber (Fin x), loc_y = JNumber (Fin y),
                  loc_width = JNumber (Fin w), loc_height = JNumber (Fin h)\<rparr>) s)) =
     (let left = Fin x; right = Fin (x + w); bottom = Fin y; top = Fin (y + h);
          topLeft = conv (JNumber left) (JNumber top);
          bottomRight = conv (JNumber right) (JNumber bottom)
      in Some (Math_min (fst topLeft) (fst bottomRight), Math_min (snd topLeft) (snd bottomRight),
               Math_abs (num_sub (fst bottomRight) (fst topLeft)),
               Math_abs (num_sub (snd bottomRight) (snd topLeft))))"
  by (simp add: created_box js_add_def identity_transform_def Let_def)



section \<open>Navigation from the filter view\<close>

lemma four_array_test:
  "(truthy loc \<and> isArray loc \<and> length_is loc 4) = is_four_array loc"
proof (cases loc)
  case (HArray xs)
  show ?thesis
  proof (cases xs)
    case Nil
    with HArray show ?thesis by simp
  next
    case (Cons a as)
    note as1 = this
    show ?thesis
    proof (cases as)
      case Nil
      with HArray as1 show ?thesis by simp
    next
      case (Cons b bs)
      note as2 = this
      show ?thesis
      proof (cases bs)
        case Nil
        with HArray as1 as2 show ?thesis by simp
      next
        case (Cons c cs)
        note as3 = this
        show ?thesis
        proof (cases cs)
          case Nil
          with HArray as1 as2 as3 show ?thesis by simp
        next
          case (Cons e es)
          with HArray as1 as2 as3 show ?thesis by (cases es) simp_all
        qed
      qed
    qed
  qed
qed simp_all

text \<open>
  Claim C9. A click on a filter item dispatches \<open>filterhighlightselected\<close> exactly when the
  link service has a viewer and the location of the highlight is an array of four
  entries. In every other case the only effect is \<open>goToPage(page)\<close>. The event carries the
  four entries as \<open>x\<close>, \<open>y\<close>, \<open>width\<close>, \<open>height\<close>, and this object is what the listener of
  the overlay passes to \<open>showHighlight\<close>.
\<close>

theorem dispatch_iff_viewer_and_four_entries:
  "(dispatched (navigateToHighlight this) \<noteq> []) =
     (ls_pdfViewer (fv_linkService this) \<noteq> None \<and> is_four_array (hd_location (fv_highlightData this)))
   \<and> (navigateToHighlight this = [GoToPage (hd_page (fv_highlightData this))]) =
     (\<not> (ls_pdfViewer (fv_linkService this) \<noteq> None \<and> is_four_array (hd_location (fv_highlightData this))))
   \<and> dispatched (navigateToHighlight this) =
     (if ls_pdfViewer (fv_linkService this) \<noteq> None \<and> is_four_array (hd_location (fv_highlightData this))
      then [(''filterhighlightselected'',
             \<lparr> evt_source = fv_id this,
               evt_pageNumber = hd_page (fv_highlightData this),
               evt_location =
                 \<lparr> loc_x = entries (hd_location (fv_highlightData this)) ! 0,
                   loc_y = entries (hd_location (fv_highlightData this)) ! 1,
                   loc_width = entries (hd_location (fv_highlightData this)) ! 2,
                   loc_height = entries (hd_location (fv_highlightData this)) ! 3 \<rparr> \<rparr>)]
      else [])
   \<and> map (\<lambda>ne. on_event (fst ne) (snd ne) s) (dispatched (navigateToHighlight this)) =
     (if ls_pdfViewer (fv_linkService this) \<noteq> None \<and> is_four_array (hd_location (fv_highlightData this))
      then [showHighlight (hd_page (fv_highlightData this))
              (LocObj \<lparr> loc_x = entries (hd_location (fv_highlightData this)) ! 0,
                        loc_y = entries (hd_location (fv_highlightData this)) ! 1,
                        loc_width = entries (hd_location (fv_highlightData this)) ! 2,
                        loc_height = entries (hd_location (fv_highlightData this)) ! 3 \<rparr>) s]
      else [])"
  by (cases "ls_pdfViewer (fv_linkService this)")
     (simp_all add: navigateToHighlight_def Let_def four_array_test on_event_def)

section \<open>The scroll destination\<close>

lemma quantum_exp_numeral:
  "quantum_exp (numeral k) a e =
     (if 2 ^ 53 \<le> a / pow2 e then quantum_exp (pred_numeral k) a (e + 1)
      else if a / pow2 e < 2 ^ 52 \<and> - 1074 < e then quantum_exp (pred_numeral k) a (e - 1)
      else e)"
  by (simp add: numeral_eq_Suc)

lemmas quantize_defs = quantize_def round_half_even_def pow2_def Let_def

lemma round_double_0: "round_double 0 = Finite 0"
  by (simp add: round_double_def)

lemma round_double_half: "round_double (1 / 2) = Finite (1 / 2)"
proof -
  have e: "quantum_exp 2200 (1 / 2) 0 = - 53"
    by (simp add: quantum_exp_numeral pow2_def)
  have q: "quantize (1 / 2) (- 53) = 1 / 2"
    by (simp add: quantize_defs)
  show ?thesis
    by (simp add: round_double_def e q Let_def)
qed

lemma round_double_tie_up: "round_double 9007199254740995 = Finite 9007199254740996"
proof -
  have e: "quantum_exp 2200 9007199254740995 0 = 1"
    by (simp add: quantum_exp_numeral pow2_def)
  have q: "quantize 9007199254740995 1 = 9007199254740996"
    by (simp add: quantize_defs)
  show ?thesis
    by (simp add: round_double_def e q Let_def)
qed

lemma round_double_tie_up_again: "round_double 18014398509481990 = Finite 18014398509481992"
proof -
  have e: "quantum_exp 2200 18014398509481990 0 = 2"
    by (simp add: quantum_exp_numeral pow2_def)
  have q: "quantize 18014398509481990 2 = 18014398509481992"
    by (simp add: quantize_defs)
  show ?thesis
    by (simp add: round_double_def e q Let_def)
qed

lemma round_double_exact: "round_double 9007199254740996 = Finite 9007199254740996"
proof -
  have e: "quantum_exp 2200 9007199254740996 0 = 1"
    by (simp add: quantum_exp_numeral pow2_def)
  have q: "quantize 9007199254740996 1 = 9007199254740996"
    by (simp add: quantize_defs)
  show ?thesis
    by (simp add: round_double_def e q Let_def)
qed

lemma round_double_down: "round_double (18014398509481989 / 2) = Finite 9007199254740994"
proof -
  have e: "quantum_exp 2200 (18014398509481989 / 2) 0 = 1"
    by (simp add: quantum_exp_numeral pow2_def)
  have q: "quantize (18014398509481989 / 2) 1 = 9007199254740994"
    by (simp add: quantize_defs)
  show ?thesis
    by (simp add: round_double_def e q Let_def)
qed

lemma round_double_10: "round_double 10 = Finite 10"
proof -
  have e: "quantum_exp 2200 10 0 = - 49"
    by (simp add: quantum_exp_numeral pow2_def)
  have q: "quantize 10 (- 49) = 10"
    by (simp add: quantize_defs)
  show ?thesis
    by (simp add: round_double_def e q Let_def)
qed

lemma round_double_20: "round_double 20 = Finite 20"
proof -
  have e: "quantum_exp 2200 20 0 = - 48"
    by (simp add: quantum_exp_numeral pow2_def)
  have q: "quantize 20 (- 48) = 20"
    by (simp add: quantize_defs)
  show ?thesis
    by (simp add: round_double_def e q Let_def)
qed

lemma round_double_m80: "round_double (- 80) = Finite (- 80)"
proof -
  have e: "quantum_exp 2200 80 0 = - 46"
    by (simp add: quantum_exp_numeral pow2_def)
  have q: "quantize 80 (- 46) = 80"
    by (simp add: quantize_defs)
  show ?thesis
    by (simp add: round_double_def e q Let_def)
qed

lemma round_double_m130: "round_double (- 130) = Finite (- 130)"
proof -
  have e: "quantum_exp 2200 130 0 = - 45"
    by (simp add: quantum_exp_numeral pow2_def)
  have q: "quantize 130 (- 45) = 130"
    by (simp add: quantize_defs)
  show ?thesis
    by (simp add: round_double_def e q Let_def)
qed

lemma round_double_m65: "round_double (- 65) = Finite (- 65)"
proof -
  have e: "quantum_exp 2200 65 0 = - 46"
    by (simp add: quantum_exp_numeral pow2_def)
  have q: "quantize 65 (- 46) = 65"
    by (simp add: quantize_defs)
  show ?thesis
    by (simp add: round_double_def e q Let_def)
qed

lemma typical_top:
  "dbl_add (Finite (- (7024559887535309 / 8796093022208)))
           (Finite (- (5545057041199923 / 140737488355328))) = Finite (- 838)"
proof -
  have e: "quantum_exp 2200 (117938015241764867 / 140737488355328) 0 = - 43"
    by (simp add: quantum_exp_numeral pow2_def)
  have q: "quantize (117938015241764867 / 140737488355328) (- 43) = 838"
    by (simp add: quantize_defs)
  show ?thesis
    by (simp add: round_double_def e q Let_def)
qed

lemma typical_sum:
  "dbl_add (Finite (- 838)) (Finite (- (7024559887535309 / 8796093022208)))
     = Finite (- (3598921460036403 / 2199023255552))"
proof -
  have e: "quantum_exp 2200 (14395685840145613 / 8796093022208) 0 = - 42"
    by (simp add: quantum_exp_numeral pow2_def)
  have q: "quantize (14395685840145613 / 8796093022208) (- 42) = 3598921460036403 / 2199023255552"
    by (simp add: quantize_defs)
  show ?thesis
    by (simp add: round_double_def e q Let_def)
qed

lemma typical_mean:
  "dbl_div2 (Finite (- (3598921460036403 / 2199023255552)))
     = Finite (- (3598921460036403 / 4398046511104))"
proof -
  have e: "quantum_exp 2200 (3598921460036403 / 4398046511104) 0 = - 43"
    by (simp add: quantum_exp_numeral pow2_def)
  have q: "quantize (3598921460036403 / 4398046511104) (- 43) = 3598921460036403 / 4398046511104"
    by (simp add: quantize_defs)
  show ?thesis
    by (simp add: round_double_def e q Let_def)
qed

lemma typical_half:
  "dbl_div2 (Finite (- (5545057041199923 / 140737488355328)))
     = Finite (- (5545057041199923 / 281474976710656))"
proof -
  have e: "quantum_exp 2200 (5545057041199923 / 281474976710656) 0 = - 48"
    by (simp add: quantum_exp_numeral pow2_def)
  have q: "quantize (5545057041199923 / 281474976710656) (- 48) = 5545057041199923 / 281474976710656"
    by (simp add: quantize_defs)
  show ?thesis
    by (simp add: round_double_def e q Let_def)
qed

lemma typical_other:
  "dbl_add (Finite (- (7024559887535309 / 8796093022208)))
           (Finite (- (5545057041199923 / 281474976710656)))
     = Finite (- (7197842920072807 / 8796093022208))"
proof -
  have e: "quantum_exp 2200 (230330973442329811 / 281474976710656) 0 = - 43"
    by (simp add: quantum_exp_numeral pow2_def)
  have q: "quantize (230330973442329811 / 281474976710656) (- 43) = 7197842920072807 / 8796093022208"
    by (simp add: quantize_defs)
  show ?thesis
    by (simp add: round_double_def e q Let_def)
qed

text \<open>
  Claim C10, as stated: the vertical coordinate of the scroll destination is
  \<open>y + height / 2\<close>. The source computes \<open>((y + height) + y) / 2\<close> in doubles, and each
  operation rounds. For \<open>y\<close> and \<open>height\<close> the doubles nearest to -798.6 and -39.4, the
  destination is the double nearest to -818.3, which is neither the centre of the
  rectangle nor the next double down, to which \<open>y + height / 2\<close> evaluates. For
  \<open>[0, 9007199254740994, 0, 1]\<close> the destination is \<open>9007199254740996\<close>, neither the centre
  \<open>9007199254740994.5\<close> nor the double \<open>9007199254740994\<close> of \<open>y + height / 2\<close>.
\<close>

theorem scroll_center_is_rounded:
  "scrolls (navigateToHighlight typical_view) =
     [\<lparr> pageNumber = 1,
        destArray = [DestNull, DestName ''XYZ'', DestNumber (Finite 20),
                     DestNumber (Finite (- (3598921460036403 / 4398046511104))), DestNull],
        allowNegativeOffset = True,
        center = ''both'' \<rparr>]
   \<and> (- (3598921460036403 / 4398046511104) :: real)
       \<noteq> - (7024559887535309 / 8796093022208) + - (5545057041199923 / 140737488355328) / 2
   \<and> dbl_add (Finite (- (7024559887535309 / 8796093022208)))
              (dbl_div2 (Finite (- (5545057041199923 / 140737488355328))))
       = Finite (- (7197842920072807 / 8796093022208))
   \<and> (- (3598921460036403 / 4398046511104) :: real) \<noteq> - (7197842920072807 / 8796093022208)
   \<and> scrolls (navigateToHighlight big_view) =
     [\<lparr> pageNumber = 1,
        destArray = [DestNull, DestName ''XYZ'', DestNumber (Finite 0),
                     DestNumber (Finite 9007199254740996), DestNull],
        allowNegativeOffset = True,
        center = ''both'' \<rparr>]
   \<and> (9007199254740996 :: real) \<noteq> 9007199254740994 + 1 / 2
   \<and> dbl_add (Finite 9007199254740994) (dbl_div2 (Finite 1)) = Finite 9007199254740994"
proof -
  have cx: "dbl_add (Finite 10) (dbl_div2 (Finite 20)) = Finite 20"
    by (simp add: round_double_10 round_double_20)
  have cy: "dbl_div2 (dbl_add (dbl_add (Finite (- (7024559887535309 / 8796093022208)))
                                       (Finite (- (5545057041199923 / 140737488355328))))
                              (Finite (- (7024559887535309 / 8796093022208))))
              = Finite (- (3598921460036403 / 4398046511104))"
    by (simp only: typical_top typical_sum typical_mean)
  have typical: "scrolls (navigateToHighlight typical_view) =
     [\<lparr> pageNumber = 1,
        destArray = [DestNull, DestName ''XYZ'', DestNumber (Finite 20),
                     DestNumber (Finite (- (3598921460036403 / 4398046511104))), DestNull],
        allowNegativeOffset = True,
        center = ''both'' \<rparr>]"
    by (simp add: typical_view_def navigateToHighlight_def Let_def cx cy
          del: dbl_add.simps dbl_div2.simps)
  have other: "dbl_add (Finite (- (7024559887535309 / 8796093022208)))
              (dbl_div2 (Finite (- (5545057041199923 / 140737488355328))))
       = Finite (- (7197842920072807 / 8796093022208))"
    by (simp only: typical_half typical_other)
  have big: "scrolls (navigateToHighlight big_view) =
     [\<lparr> pageNumber = 1,
        destArray = [DestNull, DestName ''XYZ'', DestNumber (Finite 0),
                     DestNumber (Finite 9007199254740996), DestNull],
        allowNegativeOffset = True,
        center = ''both'' \<rparr>]
   \<and> dbl_add (Finite 9007199254740994) (dbl_div2 (Finite 1)) = Finite 9007199254740994"
    by (simp add: big_view_def navigateToHighlight_def Let_def round_double_0 round_double_half
          round_double_tie_up round_double_tie_up_again round_double_exact round_double_down)
  have ne: "(- (3598921460036403 / 4398046511104) :: real)
       \<noteq> - (7024559887535309 / 8796093022208) + - (5545057041199923 / 140737488355328) / 2
     \<and> (- (3598921460036403 / 4398046511104) :: real) \<noteq> - (7197842920072807 / 8796093022208)
     \<and> (9007199254740996 :: real) \<noteq> 9007199254740994 + 1 / 2"
    by simp
  show ?thesis
    using typical other big ne by blast
qed

text \<open>
  Claim C10, amended. For a location of four numbers \<open>[x, y, width, height]\<close> the view asks
  the viewer to scroll to \<open>x + width / 2\<close> and \<open>((y + height) + y) / 2\<close>, the mean of top and
  bottom, each operation being the one of doubles; the zoom entry of the destination is
  \<open>null\<close>. The two are the centre \<open>(x + width / 2, y + height / 2)\<close> of the rectangle
  whenever none of the operations rounds.
\<close>

theorem scroll_destination_is_center:
  "scrolls (navigateToHighlight
      \<lparr> fv_id = i,
        fv_highlightData =
          \<lparr> hd_page = page, hd_text = txt,
            hd_location = HArray [JNumber (Fin x), JNumber (Fin y), JNumber (Fin w), JNumber (Fin h)] \<rparr>,
        fv_linkService = \<lparr> ls_pdfViewer = Some v \<rparr> \<rparr>) =
     [\<lparr> pageNumber = page,
        destArray = [DestNull, DestName ''XYZ'',
                     DestNumber (dbl_add (Finite x) (dbl_div2 (Finite w))),
                     DestNumber (dbl_div2 (dbl_add (dbl_add (Finite y) (Finite h)) (Finite y))),
                     DestNull],
        allowNegativeOffset = True,
        center = ''both'' \<rparr>]
   \<and> (round_double (w / 2) = Finite (w / 2) \<and> round_double (x + w / 2) = Finite (x + w / 2)
        \<longrightarrow> dbl_add (Finite x) (dbl_div2 (Finite w)) = Finite (x + w / 2))
   \<and> (round_double (y + h) = Finite (y + h) \<and> round_double (y + h + y) = Finite (y + h + y)
        \<and> round_double ((y + h + y) / 2) = Finite ((y + h + y) / 2)
        \<longrightarrow> dbl_div2 (dbl_add (dbl_add (Finite y) (Finite h)) (Finite y)) = Finite (y + h / 2))"
proof -
  have dest: "scrolls (navigateToHighlight
      \<lparr> fv_id = i,
        fv_highlightData =
          \<lparr> hd_page = page, hd_text = txt,
            hd_location = HArray [JNumber (Fin x), JNumber (Fin y), JNumber (Fin w), JNumber (Fin h)] \<rparr>,
        fv_linkService = \<lparr> ls_pdfViewer = Some v \<rparr> \<rparr>) =
     [\<lparr> pageNumber = page,
        destArray = [DestNull, DestName ''XYZ'',
                     DestNumber (dbl_add (Finite x) (dbl_div2 (Finite w))),
                     DestNumber (dbl_div2 (dbl_add (dbl_add (Finite y) (Finite h)) (Finite y))),
                     DestNull],
        allowNegativeOffset = True,
        center = ''both'' \<rparr>]"
    by (simp add: navigateToHighlight_def Let_def del: dbl_add.simps dbl_div2.simps)
  have cx: "dbl_add (Finite x) (dbl_div2 (Finite w)) = Finite (x + w / 2)"
    if "round_double (w / 2) = Finite (w / 2)" "round_double (x + w / 2) = Finite (x + w / 2)"
    using that by simp
  have mean: "(y + h + y) / 2 = y + h / 2"
    by (simp add: field_simps)
  have cy: "dbl_div2 (dbl_add (dbl_add (Finite y) (Finite h)) (Finite y)) = Finite (y + h / 2)"
    if "round_double (y + h) = Finite (y + h)" "round_double (y + h + y) = Finite (y + h + y)"
      "round_double ((y + h + y) / 2) = Finite ((y + h + y) / 2)"
    using that mean by simp
  show ?thesis
    using dest cx cy by blast
qed

theorem scroll_destination_is_center_witness:
  "scrolls (navigateToHighlight example_view) =
     [\<lparr> pageNumber = 3,
        destArray = [DestNull, DestName ''XYZ'', DestNumber (Finite 20), DestNumber (Finite (- 65)),
                     DestNull],
        allowNegativeOffset = True,
        center = ''both'' \<rparr>]"
proof -
  have hx: "round_double (20 / 2) = Finite (20 / 2) \<and> round_double (10 + 20 / 2) = Finite (10 + 20 / 2)"
    using round_double_10 round_double_20 by simp
  have hy: "round_double (- 50 + - 30) = Finite (- 50 + - 30)
          \<and> round_double (- 50 + - 30 + - 50) = Finite (- 50 + - 30 + - 50)
          \<and> round_double ((- 50 + - 30 + - 50) / 2) = Finite ((- 50 + - 30 + - 50) / 2)"
    using round_double_m80 round_double_m130 round_double_m65 by simp
  have th: "scrolls (navigateToHighlight example_view) =
     [\<lparr> pageNumber = 3,
        destArray = [DestNull, DestName ''XYZ'',
                     DestNumber (dbl_add (Finite 10) (dbl_div2 (Finite 20))),
                     DestNumber (dbl_div2 (dbl_add (dbl_add (Finite (- 50)) (Finite (- 30))) (Finite (- 50)))),
                     DestNull],
        allowNegativeOffset = True,
        center = ''both'' \<rparr>]
     \<and> dbl_add (Finite 10) (dbl_div2 (Finite 20)) = Finite (10 + 20 / 2)
     \<and> dbl_div2 (dbl_add (dbl_add (Finite (- 50)) (Finite (- 30))) (Finite (- 50))) = Finite (- 50 + - 30 / 2)"
    using hx hy scroll_destination_is_center [of 1 3 "''text''" 10 "- 50" 20 "- 30" "\<lparr>pages = None\<rparr>"]
    unfolding example_view_def by blast
  show ?thesis
    using th by (simp del: dbl_add.simps dbl_div2.simps)
qed

section \<open>What the operations do to the pending timers\<close>

lemma timers_clearHighlight:
  "timers (clearHighlight s) =
     timers s @ (case currentOverlay s of None \<Rightarrow> [] | Some ov \<Rightarrow> [(now s + 300, RemoveTask)])"
  by (simp add: clearHighlight_def split: option.splits)

lemma now_clearHighlight: "now (clearHighlight s) = now s"
  by (simp add: clearHighlight_def split: option.splits)

lemma timers_showHighlight:
  "timers (showHighlight p loc s) = timers (clearHighlight s) @ [(now s + 500, ShowTask p loc)]"
  by (simp add: showHighlight_def Let_def now_clearHighlight)

lemma timers_createOverlayElement:
  "createOverlayElement pv loc s = Inr (r, s') \<Longrightarrow> timers s' = timers s"
  by (auto simp: createOverlayElement_def Let_def split: option.splits location.splits)

lemma timers_showHighlight_callback:
  "showHighlight_callback p loc s = Inr s' \<Longrightarrow> timers s' = timers s"
  by (auto simp: showHighlight_callback_def split: option.splits sum.splits prod.splits
           dest: timers_createOverlayElement)

lemma timers_clearHighlight_callback: "timers (clearHighlight_callback s) = timers s"
  by (simp add: clearHighlight_callback_def split: option.splits)

lemma timers_run_task: "timers (run_task k s) = timers s"
  by (cases k) (auto simp: timers_clearHighlight_callback split: sum.splits
                     dest: timers_showHighlight_callback)

lemma timers_fire: "timers (fire s tk) = timers s"
  by (simp add: fire_def timers_run_task)

lemma timers_foldl_fire: "timers (foldl fire s tks) = timers s"
  by (induction tks arbitrary: s) (simp_all add: timers_fire)

lemma timers_advance:
  "timers (advance d s) = filter (\<lambda>tk. \<not> fst tk \<le> now s + d) (timers s)"
  by (simp add: advance_def Let_def timers_foldl_fire)

lemma timers_fadeIn: "timers (fadeIn s ref) = timers s"
  by (simp add: fadeIn_def)

lemma timers_foldl_fadeIn: "timers (foldl fadeIn s refs) = timers s"
  by (induction refs arbitrary: s) (simp_all add: timers_fadeIn)

lemma timers_animationFrame: "timers (animationFrame s) = timers s"
  by (simp add: animationFrame_def timers_foldl_fadeIn)

lemma advance_one_timer:
  "timers s = [(t, k)] \<Longrightarrow>
   advance d s =
     (if t \<le> now s + d then (run_task k (s\<lparr>timers := [], now := t\<rparr>))\<lparr>now := now s + d\<rparr>
      else s\<lparr>now := now s + d\<rparr>)"
  by (simp add: advance_def Let_def fire_def)

section \<open>Showing a highlight\<close>

lemmas run_defs = showHighlight_def clearHighlight_def advance_def fire_def
  showHighlight_callback_def clearHighlight_callback_def createOverlayElement_def
  getPageView_def initial_def one_page_window_def Let_def attached_def
  animationFrame_def fadeIn_def example_rect_def

text \<open>
  Claim C3. At most one overlay element exists at any time; two calls of \<open>showHighlight\<close>
  in quick succession leave at most one overlay once both settle delays have passed.
  The component does not keep this: on a fresh component, calls at 0 ms and at 100 ms for
  a rendered page leave two overlay elements in the document at 600 ms. Nothing is pending
  then, the field refers to the second element only, and a later \<open>clearHighlight\<close> removes
  the second and leaves the first in the document.
\<close>

theorem two_quick_shows_leave_two_overlays:
  "attached both_settled = [0, 1]
   \<and> currentOverlay both_settled = Some 1
   \<and> timers both_settled = []
   \<and> now both_settled = 600
   \<and> attached (advance 300 (clearHighlight both_settled)) = [0]
   \<and> currentOverlay (advance 300 (clearHighlight both_settled)) = None"
  by (simp add: both_settled_def second_show_def first_show_def run_defs upt_rec)

lemma callback_unresolved:
  "getPageView (win s) p = None \<Longrightarrow> showHighlight_callback p loc s = Inr s"
  by (simp add: showHighlight_callback_def)

lemma showHighlight_no_overlay:
  "currentOverlay s = None \<Longrightarrow>
   showHighlight p loc s = s\<lparr>timers := timers s @ [(now s + 500, ShowTask p loc)]\<rparr>"
  by (simp add: showHighlight_def clearHighlight_def)

lemma win_clearHighlight: "win (clearHighlight s) = win s"
  by (simp add: clearHighlight_def split: option.splits)

lemma win_clearHighlight_callback: "win (clearHighlight_callback s) = win s"
  by (simp add: clearHighlight_callback_def split: option.splits)

lemma showHighlight_eq:
  "showHighlight p loc s =
     (clearHighlight s)\<lparr>timers := timers (clearHighlight s) @ [(now s + 500, ShowTask p loc)]\<rparr>"
  by (simp add: showHighlight_def Let_def now_clearHighlight)

lemma advance_two_timers:
  assumes "timers s = [(t1, k1), (t2, k2)]" and "t1 \<le> t2" and "t2 \<le> now s + d"
  shows "advance d s =
     (run_task k2 ((run_task k1 (s\<lparr>timers := [], now := t1\<rparr>))\<lparr>now := t2\<rparr>))\<lparr>now := now s + d\<rparr>"
  using assms by (simp add: advance_def Let_def fire_def)

section \<open>Clearing a highlight\<close>

lemma insort_key_keeps_pair:
  "\<exists>us vs. insort_key f x (ps @ a # a # qs) = us @ a # a # vs
         \<and> insort_key f x (ps @ a # qs) = us @ a # vs"
proof (induction ps)
  case Nil
  show ?case
  proof (cases "f x \<le> f a")
    case True
    then have "insort_key f x ([] @ a # a # qs) = [x] @ a # a # qs
             \<and> insort_key f x ([] @ a # qs) = [x] @ a # qs"
      by simp
    then show ?thesis by blast
  next
    case False
    then have "insort_key f x ([] @ a # a # qs) = [] @ a # a # insort_key f x qs
             \<and> insort_key f x ([] @ a # qs) = [] @ a # insort_key f x qs"
      by simp
    then show ?thesis by blast
  qed
next
  case (Cons p ps)
  show ?case
  proof (cases "f x \<le> f p")
    case True
    then have "insort_key f x ((p # ps) @ a # a # qs) = (x # p # ps) @ a # a # qs
             \<and> insort_key f x ((p # ps) @ a # qs) = (x # p # ps) @ a # qs"
      by simp
    then show ?thesis by blast
  next
    case False
    from Cons.IH obtain us vs where
      "insort_key f x (ps @ a # a # qs) = us @ a # a # vs"
      "insort_key f x (ps @ a # qs) = us @ a # vs"
      by blast
    with False have "insort_key f x ((p # ps) @ a # a # qs) = (p # us) @ a # a # vs
             \<and> insort_key f x ((p # ps) @ a # qs) = (p # us) @ a # vs"
      by simp
    then show ?thesis by blast
  qed
qed

lemma insort_key_twice:
  "\<exists>us vs. insort_key f a (insort_key f a zs) = us @ a # a # vs
         \<and> insort_key f a zs = us @ a # vs"
proof (induction zs)
  case Nil
  have "insort_key f a (insort_key f a []) = [] @ a # a # [] \<and> insort_key f a [] = [] @ a # []"
    by simp
  then show ?case by blast
next
  case (Cons z zs)
  show ?case
  proof (cases "f a \<le> f z")
    case True
    then have "insort_key f a (insort_key f a (z # zs)) = [] @ a # a # (z # zs)
             \<and> insort_key f a (z # zs) = [] @ a # (z # zs)"
      by simp
    then show ?thesis by blast
  next
    case False
    from Cons.IH obtain us vs where
      "insort_key f a (insort_key f a zs) = us @ a # a # vs"
      "insort_key f a zs = us @ a # vs"
      by blast
    with False have "insort_key f a (insort_key f a (z # zs)) = (z # us) @ a # a # vs
             \<and> insort_key f a (z # zs) = (z # us) @ a # vs"
      by simp
    then show ?thesis by blast
  qed
qed

lemma sort_key_keeps_pair:
  "\<exists>us vs. sort_key f (xs @ a # a # ys) = us @ a # a # vs
         \<and> sort_key f (xs @ a # ys) = us @ a # vs"
proof (induction xs)
  case Nil
  show ?case using insort_key_twice [of f a "sort_key f ys"] by simp
next
  case (Cons x xs)
  from Cons.IH obtain us vs where
    eq: "sort_key f (xs @ a # a # ys) = us @ a # a # vs" "sort_key f (xs @ a # ys) = us @ a # vs"
    by blast
  show ?case
    using insort_key_keeps_pair [of f x us a vs] eq by simp
qed

lemma fire_RemoveTask_twice: "fire (fire s (t, RemoveTask)) (t, RemoveTask) = fire s (t, RemoveTask)"
  by (simp add: fire_def clearHighlight_callback_def split: option.splits)

lemma foldl_fire_pair:
  "foldl fire s (us @ (t, RemoveTask) # (t, RemoveTask) # vs) = foldl fire s (us @ (t, RemoveTask) # vs)"
  by (simp add: fire_RemoveTask_twice)

lemma clearHighlight_twice:
  "clearHighlight (clearHighlight s) =
     (clearHighlight s)\<lparr>timers := timers (clearHighlight s) @
        (case currentOverlay s of None \<Rightarrow> [] | Some ov \<Rightarrow> [(now s + 300, RemoveTask)])\<rparr>"
proof (cases "currentOverlay s")
  case None
  then show ?thesis by (simp add: clearHighlight_def)
next
  case (Some ov)
  show ?thesis
  proof (cases "ov < length (elements s)")
    case True
    with Some show ?thesis by (simp add: clearHighlight_def)
  next
    case False
    then have "length (elements s) \<le> ov"
      by simp
    then have "\<And>e. (elements s)[ov := e] = elements s"
      by (rule list_update_beyond)
    with Some show ?thesis by (simp add: clearHighlight_def)
  qed
qed

lemma advance_clearHighlight_twice:
  assumes "300 \<le> d"
  shows "advance d (clearHighlight (clearHighlight s)) = advance d (clearHighlight s)"
proof (cases "currentOverlay s")
  case None
  then show ?thesis by (simp add: clearHighlight_def)
next
  case (Some ov)
  let ?a = "(now s + 300, RemoveTask)"
  let ?c = "clearHighlight s"
  let ?P = "\<lambda>tk::nat \<times> task. fst tk \<le> now s + d"
  have t1: "timers ?c = timers s @ [?a]"
    using Some by (simp add: timers_clearHighlight)
  have c2: "clearHighlight ?c = ?c\<lparr>timers := timers s @ [?a, ?a]\<rparr>"
    using Some t1 by (simp add: clearHighlight_twice)
  obtain us vs where
    s2: "sort_key fst (filter ?P (timers s) @ ?a # ?a # []) = us @ ?a # ?a # vs" and
    s1: "sort_key fst (filter ?P (timers s) @ ?a # []) = us @ ?a # vs"
    using sort_key_keeps_pair [of fst "filter ?P (timers s)" ?a "[]"] by blast
  have "advance d (clearHighlight ?c)
          = (foldl fire (?c\<lparr>timers := filter (\<lambda>tk. \<not> ?P tk) (timers s)\<rparr>) (us @ ?a # ?a # vs))
              \<lparr>now := now s + d\<rparr>"
    using assms s2 by (simp add: c2 advance_def Let_def now_clearHighlight)
  moreover have "advance d ?c
          = (foldl fire (?c\<lparr>timers := filter (\<lambda>tk. \<not> ?P tk) (timers s)\<rparr>) (us @ ?a # vs))
              \<lparr>now := now s + d\<rparr>"
    using assms s1 by (simp add: t1 advance_def Let_def now_clearHighlight)
  ultimately show ?thesis
    by (simp only: foldl_fire_pair)
qed
lemma attached_iff:
  "(i \<in> set (attached s)) = (i < length (elements s) \<and> parentNode (elements s ! i) \<noteq> None)"
  by (auto simp: attached_def)

lemma attached_clearHighlight: "attached (clearHighlight s) = attached s"
proof (cases "currentOverlay s")
  case None
  then show ?thesis by (simp add: clearHighlight_def)
next
  case (Some ov)
  have "parentNode ((elements s)[ov := (elements s ! ov)\<lparr>style_opacity := Some ''0''\<rparr>] ! i)
          = parentNode (elements s ! i)" if "i < length (elements s)" for i
    using that by (cases "i = ov") simp_all
  then have "filter (\<lambda>i. parentNode ((elements s)[ov := (elements s ! ov)\<lparr>style_opacity := Some ''0''\<rparr>] ! i) \<noteq> None)
                [0 ..< length (elements s)]
           = filter (\<lambda>i. parentNode (elements s ! i) \<noteq> None) [0 ..< length (elements s)]"
    by (intro filter_cong) simp_all
  then show ?thesis
    using Some by (simp add: clearHighlight_def attached_def)
qed

lemma clearHighlight_no_overlay: "currentOverlay s = None \<Longrightarrow> clearHighlight s = s"
  by (simp add: clearHighlight_def)

lemma opacity_clearHighlight:
  "currentOverlay s = Some ov \<Longrightarrow> ov < length (elements s) \<Longrightarrow>
   style_opacity (elements (clearHighlight s) ! ov) = Some ''0''"
  by (simp add: clearHighlight_def)

lemma advance_clearHighlight_idle:
  assumes cur: "currentOverlay s = Some ov" and idle: "timers s = []"
  shows "advance d (clearHighlight s) =
     (if d < 300 then (clearHighlight s)\<lparr>now := now s + d\<rparr>
      else s\<lparr>elements := (elements s)[ov := (elements s ! ov)\<lparr>style_opacity := Some ''0''\<rparr>,
                                    ov := ((elements s)[ov := (elements s ! ov)\<lparr>style_opacity := Some ''0''\<rparr>] ! ov)
                                             \<lparr>parentNode := None\<rparr>],
             currentOverlay := None, now := now s + d\<rparr>)"
proof -
  have t: "timers (clearHighlight s) = [(now s + 300, RemoveTask)]"
    using cur idle by (simp add: timers_clearHighlight)
  show ?thesis
    using cur idle
    by (simp add: advance_one_timer [OF t] now_clearHighlight)
       (simp add: clearHighlight_def clearHighlight_callback_def)
qed

lemma attached_now: "attached (s\<lparr>now := t\<rparr>) = attached s"
  by (simp add: attached_def)

lemma attached_timers: "attached (s\<lparr>timers := ts\<rparr>) = attached s"
  by (simp add: attached_def)

lemma attached_run_ShowTask:
  assumes "i \<in> set (attached s)"
  shows "i \<in> set (attached (run_task (ShowTask p loc) s))"
proof -
  have i: "i < length (elements s)" "parentNode (elements s ! i) \<noteq> None"
    using assms by (simp_all add: attached_iff)
  then show ?thesis
    by (auto simp: attached_iff showHighlight_callback_def createOverlayElement_def Let_def
          nth_append
        split: option.splits location.splits)
qed

lemma attached_foldl_fire_shows:
  "\<forall>tk\<in>set tks. snd tk \<noteq> RemoveTask \<Longrightarrow> i \<in> set (attached s) \<Longrightarrow>
   i \<in> set (attached (foldl fire s tks))"
proof (induction tks arbitrary: s)
  case Nil
  then show ?case by simp
next
  case (Cons tk tks)
  obtain t k where tk: "tk = (t, k)" by (cases tk)
  from Cons.prems(1) tk obtain p loc where k: "k = ShowTask p loc"
    by (cases k) auto
  have "i \<in> set (attached (s\<lparr>now := t\<rparr>))"
    using Cons.prems(2) by (simp add: attached_now)
  then have "i \<in> set (attached (run_task (ShowTask p loc) (s\<lparr>now := t\<rparr>)))"
    by (rule attached_run_ShowTask)
  then have "i \<in> set (attached (fire s tk))"
    by (simp only: tk k fire_def fst_conv snd_conv)
  with Cons show ?case by simp
qed

lemma still_attached_before_removal:
  assumes cur: "currentOverlay s = Some ov"
    and att: "ov \<in> set (attached s)"
    and early: "d < 300"
    and pending: "\<forall>tk\<in>set (timers s). snd tk = RemoveTask \<longrightarrow> now s + d < fst tk"
  shows "ov \<in> set (attached (advance d (clearHighlight s)))"
proof -
  let ?c = "clearHighlight s"
  let ?due = "filter (\<lambda>tk. fst tk \<le> now s + d) (timers ?c)"
  have t: "timers ?c = timers s @ [(now s + 300, RemoveTask)]"
    using cur by (simp add: timers_clearHighlight)
  have "\<forall>tk\<in>set (sort_key fst ?due). snd tk \<noteq> RemoveTask"
    using early pending by (auto simp: t)
  moreover have "ov \<in> set (attached (?c\<lparr>timers := filter (\<lambda>tk. \<not> fst tk \<le> now s + d) (timers ?c)\<rparr>))"
    using att by (simp add: attached_timers attached_clearHighlight)
  ultimately have "ov \<in> set (attached (foldl fire
      (?c\<lparr>timers := filter (\<lambda>tk. \<not> fst tk \<le> now s + d) (timers ?c)\<rparr>) (sort_key fst ?due)))"
    by (rule attached_foldl_fire_shows)
  then show ?thesis
    by (simp add: advance_def Let_def now_clearHighlight attached_now)
qed

lemma removed_after_delay:
  assumes cur: "currentOverlay s = Some ov" and idle: "timers s = []" and late: "300 \<le> d"
  shows "ov \<notin> set (attached (advance d (clearHighlight s)))
       \<and> currentOverlay (advance d (clearHighlight s)) = None
       \<and> timers (advance d (clearHighlight s)) = []"
  using late idle by (simp add: advance_clearHighlight_idle [OF cur idle] attached_iff)

text \<open>
  Claim C6, as stated: calling \<open>clearHighlight\<close> twice leaves the same state as calling it
  once, and with an overlay the call fades it and then removes it. With an overlay shown,
  the second call sets a second removal timer, so the states differ. And the element that
  was faded is not always the one removed: when a highlight requested earlier is still
  settling (requests at 0 ms and 400 ms, \<open>clearHighlight\<close> at 700 ms), the removal at
  1000 ms takes the overlay created at 900 ms, and the faded one stays in the document with
  nothing pending.
\<close>

theorem second_clear_sets_second_timer:
  "currentOverlay shown = Some 0
   \<and> timers (clearHighlight shown) = [(800, RemoveTask)]
   \<and> timers (clearHighlight (clearHighlight shown)) = [(800, RemoveTask), (800, RemoveTask)]
   \<and> clearHighlight (clearHighlight shown) \<noteq> clearHighlight shown
   \<and> currentOverlay raced = Some 0
   \<and> attached raced = [0]
   \<and> style_opacity (elements (clearHighlight raced) ! 0) = Some ''0''
   \<and> attached raced_cleared = [0]
   \<and> currentOverlay raced_cleared = None
   \<and> timers raced_cleared = []"
proof -
  have a: "currentOverlay shown = Some 0
   \<and> timers (clearHighlight shown) = [(800, RemoveTask)]
   \<and> timers (clearHighlight (clearHighlight shown)) = [(800, RemoveTask), (800, RemoveTask)]"
    by (simp add: shown_def first_show_def run_defs)
  then have b: "clearHighlight (clearHighlight shown) \<noteq> clearHighlight shown"
    by auto
  have c: "currentOverlay raced = Some 0
   \<and> attached raced = [0]
   \<and> style_opacity (elements (clearHighlight raced) ! 0) = Some ''0''"
    by (simp add: raced_def first_show_def run_defs upt_rec)
  have d: "attached raced_cleared = [0]
   \<and> currentOverlay raced_cleared = None
   \<and> timers raced_cleared = []"
    by (simp add: raced_cleared_def raced_def first_show_def run_defs upt_rec)
  show ?thesis
    using a b c d by simp
qed

text \<open>
  Claim C6, amended. With no overlay \<open>clearHighlight\<close> changes nothing, once or twice, and
  it never throws. With an overlay every call sets the opacity to \<open>"0"\<close>, leaves the
  element in the document and sets one more removal timer due 300 ms later: a second
  call leaves the elements, the current overlay and the attached overlays as the first
  call left them, the states differ by that one timer, and from 300 ms on the state is
  the one a single call leads to. When nothing else is pending, the element is out of the
  document 300 ms after the call.
\<close>

theorem clearHighlight_idempotent:
  "(currentOverlay s = None \<longrightarrow> clearHighlight s = s \<and> clearHighlight (clearHighlight s) = s)
   \<and> clearHighlight (clearHighlight s) =
       (clearHighlight s)\<lparr>timers := timers (clearHighlight s) @
          (case currentOverlay s of None \<Rightarrow> [] | Some ov \<Rightarrow> [(now s + 300, RemoveTask)])\<rparr>
   \<and> elements (clearHighlight (clearHighlight s)) = elements (clearHighlight s)
   \<and> currentOverlay (clearHighlight (clearHighlight s)) = currentOverlay (clearHighlight s)
   \<and> attached (clearHighlight (clearHighlight s)) = attached (clearHighlight s)
   \<and> attached (clearHighlight s) = attached s
   \<and> (300 \<le> d \<longrightarrow> advance d (clearHighlight (clearHighlight s)) = advance d (clearHighlight s))
   \<and> (currentOverlay s = Some ov \<and> ov \<in> set (attached s) \<longrightarrow>
        ov \<in> set (attached (clearHighlight s))
      \<and> style_opacity (elements (clearHighlight s) ! ov) = Some ''0''
      \<and> timers (clearHighlight s) = timers s @ [(now s + 300, RemoveTask)])
   \<and> (currentOverlay s = Some ov \<and> ov \<in> set (attached s) \<and> timers s = [] \<longrightarrow>
        ov \<notin> set (attached (advance 300 (clearHighlight s)))
      \<and> currentOverlay (advance 300 (clearHighlight s)) = None)"
proof -
  have noop: "clearHighlight s = s \<and> clearHighlight (clearHighlight s) = s"
    if "currentOverlay s = None"
    using that by (simp add: clearHighlight_no_overlay)
  have twice: "clearHighlight (clearHighlight s) =
       (clearHighlight s)\<lparr>timers := timers (clearHighlight s) @
          (case currentOverlay s of None \<Rightarrow> [] | Some ov \<Rightarrow> [(now s + 300, RemoveTask)])\<rparr>"
    by (rule clearHighlight_twice)
  have els: "elements (clearHighlight (clearHighlight s)) = elements (clearHighlight s)"
    and cur: "currentOverlay (clearHighlight (clearHighlight s)) = currentOverlay (clearHighlight s)"
    by (simp_all add: clearHighlight_twice)
  have att: "attached (clearHighlight (clearHighlight s)) = attached (clearHighlight s)"
    and att1: "attached (clearHighlight s) = attached s"
    by (simp_all add: attached_clearHighlight)
  have later: "advance d (clearHighlight (clearHighlight s)) = advance d (clearHighlight s)"
    if "300 \<le> d"
    using that by (rule advance_clearHighlight_twice)
  have fade: "ov \<in> set (attached (clearHighlight s))
      \<and> style_opacity (elements (clearHighlight s) ! ov) = Some ''0''
      \<and> timers (clearHighlight s) = timers s @ [(now s + 300, RemoveTask)]"
    if c: "currentOverlay s = Some ov" and a: "ov \<in> set (attached s)"
  proof -
    have "ov < length (elements s)"
      using a by (simp add: attached_iff)
    then have "style_opacity (elements (clearHighlight s) ! ov) = Some ''0''"
      using c by (simp add: opacity_clearHighlight)
    moreover have "ov \<in> set (attached (clearHighlight s))"
      using a by (simp add: attached_clearHighlight)
    moreover have "timers (clearHighlight s) = timers s @ [(now s + 300, RemoveTask)]"
      using c by (simp add: timers_clearHighlight)
    ultimately show ?thesis by simp
  qed
  have gone: "ov \<notin> set (attached (advance 300 (clearHighlight s)))
      \<and> currentOverlay (advance 300 (clearHighlight s)) = None"
    if c: "currentOverlay s = Some ov" and i: "timers s = []"
    using removed_after_delay [OF c i, of 300] by simp
  show ?thesis
    using noop twice els cur att att1 later fade gone by blast
qed

theorem clearHighlight_idempotent_witness:
  "clearHighlight (initial one_page_window) = initial one_page_window
   \<and> elements (clearHighlight (clearHighlight shown)) = elements (clearHighlight shown)
   \<and> advance 300 (clearHighlight (clearHighlight shown)) = advance 300 (clearHighlight shown)
   \<and> attached shown = [0]
   \<and> 0 \<in> set (attached (clearHighlight shown))
   \<and> 0 \<notin> set (attached (advance 300 (clearHighlight shown)))"
proof -
  have a: "currentOverlay (initial one_page_window) = None"
    by (simp add: initial_def)
  have b: "currentOverlay shown = Some 0 \<and> 0 \<in> set (attached shown) \<and> timers shown = []
           \<and> attached shown = [0]"
    by (simp add: shown_def first_show_def run_defs upt_rec)
  have c: "(300::nat) \<le> 300"
    by simp
  show ?thesis
    using a b c clearHighlight_idempotent [of "initial one_page_window" 300 0]
      clearHighlight_idempotent [of shown 300 0]
    by blast
qed

text \<open>
  Claim C7. \<open>clearHighlight\<close> never removes an element in the turn it is called in: the
  attached overlays are the same after the call. With an attached current overlay the
  call sets its opacity to \<open>"0"\<close> and hands the removal to a timer due 300 ms later; unless
  a removal of an earlier call is due sooner, the element is in the document at every
  moment before the 300 ms have passed, and with nothing else pending it is out of the
  document from then on.
\<close>

theorem removal_is_deferred:
  "attached (clearHighlight s) = attached s
   \<and> (currentOverlay s = Some ov \<and> ov \<in> set (attached s) \<longrightarrow>
        style_opacity (elements (clearHighlight s) ! ov) = Some ''0''
      \<and> timers (clearHighlight s) = timers s @ [(now s + 300, RemoveTask)]
      \<and> (d < 300 \<and> (\<forall>tk\<in>set (timers s). snd tk = RemoveTask \<longrightarrow> now s + d < fst tk) \<longrightarrow>
           ov \<in> set (attached (advance d (clearHighlight s))))
      \<and> (300 \<le> d \<and> timers s = [] \<longrightarrow>
           ov \<notin> set (attached (advance d (clearHighlight s)))))"
proof -
  have sync: "attached (clearHighlight s) = attached s"
    by (rule attached_clearHighlight)
  have rest: "style_opacity (elements (clearHighlight s) ! ov) = Some ''0''
      \<and> timers (clearHighlight s) = timers s @ [(now s + 300, RemoveTask)]
      \<and> (d < 300 \<and> (\<forall>tk\<in>set (timers s). snd tk = RemoveTask \<longrightarrow> now s + d < fst tk) \<longrightarrow>
           ov \<in> set (attached (advance d (clearHighlight s))))
      \<and> (300 \<le> d \<and> timers s = [] \<longrightarrow>
           ov \<notin> set (attached (advance d (clearHighlight s))))"
    if c: "currentOverlay s = Some ov" and a: "ov \<in> set (attached s)"
  proof -
    have "ov < length (elements s)"
      using a by (simp add: attached_iff)
    then have op: "style_opacity (elements (clearHighlight s) ! ov) = Some ''0''"
      using c by (simp add: opacity_clearHighlight)
    have tm: "timers (clearHighlight s) = timers s @ [(now s + 300, RemoveTask)]"
      using c by (simp add: timers_clearHighlight)
    have before: "ov \<in> set (attached (advance d (clearHighlight s)))"
      if "d < 300" "\<forall>tk\<in>set (timers s). snd tk = RemoveTask \<longrightarrow> now s + d < fst tk"
      using c a that by (rule still_attached_before_removal)
    have after: "ov \<notin> set (attached (advance d (clearHighlight s)))"
      if "300 \<le> d" "timers s = []"
      using removed_after_delay [OF c that(2) that(1)] by simp
    show ?thesis
      using op tm before after by blast
  qed
  show ?thesis
    using sync rest by blast
qed

theorem removal_is_deferred_witness:
  "currentOverlay shown = Some 0
   \<and> attached (clearHighlight shown) = [0]
   \<and> style_opacity (elements (clearHighlight shown) ! 0) = Some ''0''
   \<and> 0 \<in> set (attached (advance 299 (clearHighlight shown)))
   \<and> 0 \<notin> set (attached (advance 300 (clearHighlight shown)))"
proof -
  have b: "currentOverlay shown = Some 0 \<and> 0 \<in> set (attached shown) \<and> timers shown = []
           \<and> attached shown = [0]"
    by (simp add: shown_def first_show_def run_defs upt_rec)
  then have p: "\<forall>tk\<in>set (timers shown). snd tk = RemoveTask \<longrightarrow> now shown + 299 < fst tk"
    by simp
  have n: "(299::nat) < 300 \<and> (300::nat) \<le> 300"
    by simp
  show ?thesis
    using b p n removal_is_deferred [of shown 0 299] removal_is_deferred [of shown 0 300]
    by metis
qed

section \<open>A page number that does not resolve\<close>

lemma getPageView_unresolved:
  "(PDFViewerApplication w = None \<longrightarrow> getPageView w p = None)
   \<and> (PDFViewerApplication w = Some app \<and> app_pdfViewer app = None \<and> app_pdfSidebar app = None
        \<longrightarrow> getPageView w p = None)
   \<and> (PDFViewerApplication w = Some app \<and> app_pdfViewer app = None \<and> app_pdfSidebar app = Some sb
        \<and> sidebar_pdfViewer sb = None \<longrightarrow> getPageView w p = None)
   \<and> (PDFViewerApplication w = Some app
        \<and> (app_pdfViewer app = Some v
             \<or> app_pdfViewer app = None \<and> app_pdfSidebar app = Some sb \<and> sidebar_pdfViewer sb = Some v)
        \<and> (pages v = None \<or> pages v = Some ps \<and> (p < 1 \<or> int (length ps) < p))
        \<longrightarrow> getPageView w p = None)"
  by (auto simp: getPageView_def Let_def)

lemma unresolved_show_after_clear:
  assumes unres: "getPageView (win s) p = None"
    and cur: "currentOverlay s = Some ov" and idle: "timers s = []" and late: "500 \<le> d"
  shows "advance d (showHighlight p loc s) = advance d (clearHighlight s)"
proof -
  let ?c = "clearHighlight s"
  let ?r = "clearHighlight_callback (?c\<lparr>timers := [], now := now s + 300\<rparr>)"
  have tc: "timers ?c = [(now s + 300, RemoveTask)]"
    using cur idle by (simp add: timers_clearHighlight)
  have ts: "timers (showHighlight p loc s) = [(now s + 300, RemoveTask), (now s + 500, ShowTask p loc)]"
    by (simp add: timers_showHighlight tc)
  have ns: "now (showHighlight p loc s) = now s"
    by (simp add: showHighlight_eq now_clearHighlight)
  have strip: "(showHighlight p loc s)\<lparr>timers := [], now := now s + 300\<rparr>
                = ?c\<lparr>timers := [], now := now s + 300\<rparr>"
    by (simp add: showHighlight_eq)
  have "getPageView (win (?r\<lparr>now := now s + 500\<rparr>)) p = None"
    using unres by (simp add: win_clearHighlight_callback win_clearHighlight)
  then have noop: "run_task (ShowTask p loc) (?r\<lparr>now := now s + 500\<rparr>) = ?r\<lparr>now := now s + 500\<rparr>"
    by (simp add: callback_unresolved)
  have "advance d (showHighlight p loc s) = ?r\<lparr>now := now s + d\<rparr>"
    using late by (simp add: advance_two_timers [OF ts] ns strip noop del: run_task.simps(1))
  moreover have "advance d ?c = ?r\<lparr>now := now s + d\<rparr>"
    using late by (simp add: advance_one_timer [OF tc] now_clearHighlight)
  ultimately show ?thesis by simp
qed

text \<open>
  Claim C4, as stated: a call of \<open>showHighlight\<close> for a page number that resolves to no page
  view mutates nothing in the document. This fails when an overlay is shown: the call
  first clears it, so with page 1 highlighted a call for the missing page 2 sets the
  opacity of the overlay to \<open>"0"\<close> and, 300 ms later, removes it.
\<close>

theorem unresolved_page_clears_existing_overlay:
  "getPageView (win shown) 2 = None
   \<and> attached shown = [0]
   \<and> style_opacity (elements shown ! 0) = Some ''1''
   \<and> style_opacity (elements (showHighlight 2 (LocObj example_rect) shown) ! 0) = Some ''0''
   \<and> attached (advance 500 (showHighlight 2 (LocObj example_rect) shown)) = []"
  by (simp add: shown_def first_show_def run_defs upt_rec)

text \<open>
  Claim C4, amended. No page view resolves when the application or its viewer is absent,
  when the viewer has no pages, or when the 1-based index has no entry. Then the deferred
  part of \<open>showHighlight\<close> changes nothing and does not throw, so no overlay is created.
  The call itself does what \<open>clearHighlight\<close> does and sets its timer: it removes nothing
  at once, and with no current overlay it changes no element. When nothing else is
  pending, the state after the settle delay is, with no overlay, the state before the call
  with the clock advanced, and with an overlay the state \<open>clearHighlight\<close> alone leads to:
  that overlay out of the document and no element added.
\<close>

theorem unresolved_page_creates_nothing:
  "(PDFViewerApplication w = None \<longrightarrow> getPageView w p = None)
   \<and> (PDFViewerApplication w = Some app \<and> app_pdfViewer app = None \<and> app_pdfSidebar app = None
        \<longrightarrow> getPageView w p = None)
   \<and> (PDFViewerApplication w = Some app \<and> app_pdfViewer app = None \<and> app_pdfSidebar app = Some sb
        \<and> sidebar_pdfViewer sb = None \<longrightarrow> getPageView w p = None)
   \<and> (PDFViewerApplication w = Some app
        \<and> (app_pdfViewer app = Some v
             \<or> app_pdfViewer app = None \<and> app_pdfSidebar app = Some sb \<and> sidebar_pdfViewer sb = Some v)
        \<and> (pages v = None \<or> pages v = Some ps \<and> (p < 1 \<or> int (length ps) < p))
        \<longrightarrow> getPageView w p = None)
   \<and> (getPageView (win s) p = None \<longrightarrow>
        showHighlight_callback p loc s = Inr s
      \<and> run_task (ShowTask p loc) s = s
      \<and> showHighlight p loc s =
          (clearHighlight s)\<lparr>timers := timers (clearHighlight s) @ [(now s + 500, ShowTask p loc)]\<rparr>
      \<and> elements (showHighlight p loc s) = elements (clearHighlight s)
      \<and> attached (showHighlight p loc s) = attached s
      \<and> currentOverlay (showHighlight p loc s) = currentOverlay s
      \<and> uncaught (showHighlight p loc s) = uncaught s
      \<and> (currentOverlay s = Some ov \<and> ov \<in> set (attached s) \<longrightarrow>
           style_opacity (elements (showHighlight p loc s) ! ov) = Some ''0''
         \<and> ov \<in> set (attached (showHighlight p loc s))
         \<and> timers (showHighlight p loc s) =
             timers s @ [(now s + 300, RemoveTask), (now s + 500, ShowTask p loc)])
      \<and> (currentOverlay s = None \<longrightarrow>
           showHighlight p loc s = s\<lparr>timers := timers s @ [(now s + 500, ShowTask p loc)]\<rparr>)
      \<and> (currentOverlay s = None \<and> timers s = [] \<and> 500 \<le> d \<longrightarrow>
           advance d (showHighlight p loc s) = s\<lparr>now := now s + d\<rparr>)
      \<and> (currentOverlay s = Some ov \<and> timers s = [] \<and> 500 \<le> d \<longrightarrow>
           advance d (showHighlight p loc s) = advance d (clearHighlight s)
         \<and> length (elements (advance d (showHighlight p loc s))) = length (elements s)
         \<and> ov \<notin> set (attached (advance d (showHighlight p loc s)))
         \<and> currentOverlay (advance d (showHighlight p loc s)) = None))"
proof -
  have deferred: "showHighlight_callback p loc s = Inr s
      \<and> run_task (ShowTask p loc) s = s
      \<and> (currentOverlay s = None \<and> timers s = [] \<and> 500 \<le> d \<longrightarrow>
           advance d (showHighlight p loc s) = s\<lparr>now := now s + d\<rparr>)
      \<and> (currentOverlay s = Some ov \<and> timers s = [] \<and> 500 \<le> d \<longrightarrow>
           advance d (showHighlight p loc s) = advance d (clearHighlight s)
         \<and> length (elements (advance d (showHighlight p loc s))) = length (elements s)
         \<and> ov \<notin> set (attached (advance d (showHighlight p loc s)))
         \<and> currentOverlay (advance d (showHighlight p loc s)) = None)"
    if unres: "getPageView (win s) p = None"
  proof -
    have cb: "showHighlight_callback p loc s = Inr s"
      using unres by (rule callback_unresolved)
    have run: "run_task (ShowTask p loc) s = s"
      using cb by simp
    have whole: "advance d (showHighlight p loc s) = s\<lparr>now := now s + d\<rparr>"
      if none: "currentOverlay s = None" and idle: "timers s = []" and late: "500 \<le> d"
    proof -
      let ?s1 = "s\<lparr>timers := [(now s + 500, ShowTask p loc)]\<rparr>"
      let ?s2 = "?s1\<lparr>timers := [], now := now s + 500\<rparr>"
      have sh: "showHighlight p loc s = ?s1"
        using none idle by (simp add: showHighlight_no_overlay)
      have "getPageView (win ?s2) p = None"
        using unres by simp
      then have "showHighlight_callback p loc ?s2 = Inr ?s2"
        by (rule callback_unresolved)
      then have "run_task (ShowTask p loc) ?s2 = ?s2"
        by simp
      then have "advance d ?s1 = ?s2\<lparr>now := now s + d\<rparr>"
        using late by (simp add: advance_one_timer)
      then show ?thesis
        using sh idle by simp
    qed
    have cleared: "advance d (showHighlight p loc s) = advance d (clearHighlight s)
         \<and> length (elements (advance d (showHighlight p loc s))) = length (elements s)
         \<and> ov \<notin> set (attached (advance d (showHighlight p loc s)))
         \<and> currentOverlay (advance d (showHighlight p loc s)) = None"
      if cur: "currentOverlay s = Some ov" and idle: "timers s = []" and late: "500 \<le> d"
    proof -
      have eq: "advance d (showHighlight p loc s) = advance d (clearHighlight s)"
        using unres cur idle late by (rule unresolved_show_after_clear)
      have l: "300 \<le> d"
        using late by simp
      have "length (elements (advance d (clearHighlight s))) = length (elements s)"
        using l by (simp add: advance_clearHighlight_idle [OF cur idle])
      then show ?thesis
        using eq removed_after_delay [OF cur idle l] by simp
    qed
    show ?thesis
      using cb run whole cleared by blast
  qed
  have call: "showHighlight p loc s =
          (clearHighlight s)\<lparr>timers := timers (clearHighlight s) @ [(now s + 500, ShowTask p loc)]\<rparr>
      \<and> elements (showHighlight p loc s) = elements (clearHighlight s)
      \<and> attached (showHighlight p loc s) = attached s
      \<and> currentOverlay (showHighlight p loc s) = currentOverlay s
      \<and> uncaught (showHighlight p loc s) = uncaught s"
  proof -
    have "attached (showHighlight p loc s) = attached (clearHighlight s)"
      by (simp add: showHighlight_eq attached_timers)
    then have "attached (showHighlight p loc s) = attached s"
      by (simp add: attached_clearHighlight)
    moreover have "currentOverlay (showHighlight p loc s) = currentOverlay s"
      "uncaught (showHighlight p loc s) = uncaught s"
      by (simp_all add: showHighlight_eq clearHighlight_def split: option.splits)
    ultimately show ?thesis
      by (simp add: showHighlight_eq)
  qed
  have fade: "style_opacity (elements (showHighlight p loc s) ! ov) = Some ''0''
         \<and> ov \<in> set (attached (showHighlight p loc s))
         \<and> timers (showHighlight p loc s) =
             timers s @ [(now s + 300, RemoveTask), (now s + 500, ShowTask p loc)]"
    if c: "currentOverlay s = Some ov" and a: "ov \<in> set (attached s)"
  proof -
    have "ov < length (elements s)"
      using a by (simp add: attached_iff)
    then have "style_opacity (elements (clearHighlight s) ! ov) = Some ''0''"
      using c by (simp add: opacity_clearHighlight)
    then have "style_opacity (elements (showHighlight p loc s) ! ov) = Some ''0''"
      by (simp add: showHighlight_eq)
    moreover have "ov \<in> set (attached (showHighlight p loc s))"
      using a by (simp add: showHighlight_eq attached_timers attached_clearHighlight)
    moreover have "timers (showHighlight p loc s) =
             timers s @ [(now s + 300, RemoveTask), (now s + 500, ShowTask p loc)]"
      using c by (simp add: timers_showHighlight timers_clearHighlight)
    ultimately show ?thesis by simp
  qed
  show ?thesis
    using getPageView_unresolved [of w p app sb v ps] deferred call fade
      showHighlight_no_overlay [of s p loc]
    by blast
qed

theorem unresolved_page_creates_nothing_witness:
  "getPageView no_application 1 = None
   \<and> getPageView no_viewer 1 = None
   \<and> getPageView sidebar_without_viewer 1 = None
   \<and> getPageView no_pages 1 = None
   \<and> getPageView empty_pages 1 = None
   \<and> getPageView one_page_window 2 = None
   \<and> getPageView one_page_window 0 = None
   \<and> advance 700 (showHighlight 1 (LocObj example_rect) (initial no_application))
       = (initial no_application)\<lparr>now := now (initial no_application) + 700\<rparr>
   \<and> style_opacity (elements (showHighlight 2 (LocObj example_rect) shown) ! 0) = Some ''0''
   \<and> advance 500 (showHighlight 2 (LocObj example_rect) shown) = advance 500 (clearHighlight shown)
   \<and> 0 \<notin> set (attached (advance 500 (showHighlight 2 (LocObj example_rect) shown)))"
proof -
  have a1: "getPageView no_application 1 = None"
    using unresolved_page_creates_nothing [where w = no_application and p = 1]
    by (simp add: no_application_def)
  have a2: "getPageView no_viewer 1 = None"
    using unresolved_page_creates_nothing [where w = no_viewer and p = 1
        and app = "\<lparr>app_pdfViewer = None, app_pdfSidebar = None\<rparr>"]
    by (simp add: no_viewer_def)
  have a3: "getPageView sidebar_without_viewer 1 = None"
    using unresolved_page_creates_nothing [where w = sidebar_without_viewer and p = 1
        and app = "\<lparr>app_pdfViewer = None, app_pdfSidebar = Some \<lparr>sidebar_pdfViewer = None\<rparr>\<rparr>"
        and sb = "\<lparr>sidebar_pdfViewer = None\<rparr>"]
    by (simp add: sidebar_without_viewer_def)
  have a4: "getPageView no_pages 1 = None"
    using unresolved_page_creates_nothing [where w = no_pages and p = 1
        and app = "\<lparr>app_pdfViewer = Some \<lparr>pages = None\<rparr>, app_pdfSidebar = None\<rparr>"
        and v = "\<lparr>pages = None\<rparr>"]
    by (simp add: no_pages_def)
  have a5: "getPageView empty_pages 1 = None"
    using unresolved_page_creates_nothing [where w = empty_pages and p = 1
        and app = "\<lparr>app_pdfViewer = None,
                     app_pdfSidebar = Some \<lparr>sidebar_pdfViewer = Some \<lparr>pages = Some []\<rparr>\<rparr>\<rparr>"
        and sb = "\<lparr>sidebar_pdfViewer = Some \<lparr>pages = Some []\<rparr>\<rparr>"
        and v = "\<lparr>pages = Some []\<rparr>" and ps = "[]"]
    by (simp add: empty_pages_def)
  have a6: "getPageView one_page_window 2 = None"
    using unresolved_page_creates_nothing [where w = one_page_window and p = 2
        and app = "\<lparr>app_pdfViewer = Some
                       \<lparr>pages = Some [\<lparr>pv_div = Some 0, convertToViewportPoint = identity_transform\<rparr>]\<rparr>,
                     app_pdfSidebar = None\<rparr>"
        and v = "\<lparr>pages = Some [\<lparr>pv_div = Some 0, convertToViewportPoint = identity_transform\<rparr>]\<rparr>"
        and ps = "[\<lparr>pv_div = Some 0, convertToViewportPoint = identity_transform\<rparr>]"]
    by (simp add: one_page_window_def)
  have a7: "getPageView one_page_window 0 = None"
    using unresolved_page_creates_nothing [where w = one_page_window and p = 0
        and app = "\<lparr>app_pdfViewer = Some
                       \<lparr>pages = Some [\<lparr>pv_div = Some 0, convertToViewportPoint = identity_transform\<rparr>]\<rparr>,
                     app_pdfSidebar = None\<rparr>"
        and v = "\<lparr>pages = Some [\<lparr>pv_div = Some 0, convertToViewportPoint = identity_transform\<rparr>]\<rparr>"
        and ps = "[\<lparr>pv_div = Some 0, convertToViewportPoint = identity_transform\<rparr>]"]
    by (simp add: one_page_window_def)
  have i: "getPageView (win (initial no_application)) 1 = None
         \<and> currentOverlay (initial no_application) = None \<and> timers (initial no_application) = []
         \<and> (500::nat) \<le> 700"
    using a1 by (simp add: initial_def)
  have b: "advance 700 (showHighlight 1 (LocObj example_rect) (initial no_application))
       = (initial no_application)\<lparr>now := now (initial no_application) + 700\<rparr>"
    using i unresolved_page_creates_nothing [where s = "initial no_application" and p = 1
        and loc = "LocObj example_rect" and d = 700]
    by blast
  have s: "getPageView (win shown) 2 = None \<and> currentOverlay shown = Some 0 \<and> timers shown = []
         \<and> 0 \<in> set (attached shown) \<and> (500::nat) \<le> 500"
    using a6 by (simp add: shown_def first_show_def run_defs)
  have c: "style_opacity (elements (showHighlight 2 (LocObj example_rect) shown) ! 0) = Some ''0''
         \<and> advance 500 (showHighlight 2 (LocObj example_rect) shown) = advance 500 (clearHighlight shown)
         \<and> 0 \<notin> set (attached (advance 500 (showHighlight 2 (LocObj example_rect) shown)))"
    using s unresolved_page_creates_nothing [where s = shown and p = 2
        and loc = "LocObj example_rect" and d = 500 and ov = 0]
    by blast
  show ?thesis
    using a1 a2 a3 a4 a5 a6 a7 b c by blast
qed

section \<open>The location argument\<close>

text \<open>
  Claim C5, as stated: with a location that is \<open>null\<close> or malformed no overlay is created
  and the component does not fail. Neither holds for a rendered page: with \<open>null\<close> the
  deferred callback throws a \<open>TypeError\<close> that nothing catches, and with an object that
  has none of the four properties an overlay is created and attached, its position and
  size being \<open>NaN\<close>.
\<close>

theorem null_location_throws_and_empty_object_is_drawn:
  "uncaught (advance 500 (showHighlight 1 LocNull (initial one_page_window))) = [TypeError]
   \<and> attached (advance 500 (showHighlight 1 (LocObj empty_object) (initial one_page_window))) = [0]
   \<and> map overlay_box (elements (advance 500 (showHighlight 1 (LocObj empty_object) (initial one_page_window))))
       = [(NaN, NaN, NaN, NaN)]"
  by (simp add: run_defs upt_rec empty_object_def overlay_box_def identity_transform_def js_add_def)

text \<open>
  Claim C5, amended. \<open>showHighlight\<close> does not validate its location, and the call itself
  never throws. When the page view does not resolve or has no container, the deferred
  callback changes nothing whatever the location is. When it resolves and has a
  container, a location that is \<open>null\<close> or \<open>undefined\<close> makes the callback throw a
  \<open>TypeError\<close> before anything is created: no overlay, the state unchanged but for the
  uncaught exception. A location that is an object always yields an overlay element
  attached to the page container; its position and size are the minimum and absolute
  difference of the transformed corners, which are \<open>NaN\<close> as soon as a corner is.
\<close>

theorem location_is_not_validated:
  "(getPageView (win s) p = None \<longrightarrow> run_task (ShowTask p loc) s = s)
   \<and> (getPageView (win s) p = Some pv \<and> pv_div pv = None \<longrightarrow> run_task (ShowTask p loc) s = s)
   \<and> (getPageView (win s) p = Some pv \<and> pv_div pv = Some d \<longrightarrow>
        showHighlight_callback p LocNull s = Inl TypeError
      \<and> showHighlight_callback p LocUndefined s = Inl TypeError
      \<and> run_task (ShowTask p LocNull) s = s\<lparr>uncaught := uncaught s @ [TypeError]\<rparr>
      \<and> run_task (ShowTask p LocUndefined) s = s\<lparr>uncaught := uncaught s @ [TypeError]\<rparr>
      \<and> (\<exists>e. created_element (createOverlayElement pv (LocObj r) s) = Some e
             \<and> parentNode e = Some d
             \<and> overlay_box e =
                 (let tl = convertToViewportPoint pv (loc_x r) (JNumber (js_add (loc_y r) (loc_height r)));
                      br = convertToViewportPoint pv (JNumber (js_add (loc_x r) (loc_width r))) (loc_y r)
                  in (Math_min (fst tl) (fst br), Math_min (snd tl) (snd br),
                      Math_abs (num_sub (fst br) (fst tl)), Math_abs (num_sub (snd br) (snd tl))))
             \<and> run_task (ShowTask p (LocObj r)) s =
                 s\<lparr>elements := elements s @ [e],
                    frames := frames s @ [length (elements s)],
                    currentOverlay := Some (length (elements s))\<rparr>))
   \<and> elements (showHighlight p loc s) = elements (clearHighlight s)
   \<and> uncaught (showHighlight p loc s) = uncaught s
   \<and> js_add JUndefined JUndefined = NaN
   \<and> Math_min NaN a = NaN \<and> Math_min a NaN = NaN
   \<and> Math_abs (num_sub NaN a) = NaN \<and> Math_abs (num_sub a NaN) = NaN"
proof -
  have unres: "run_task (ShowTask p loc) s = s" if "getPageView (win s) p = None"
    using that by (simp add: showHighlight_callback_def)
  have nodiv: "run_task (ShowTask p loc) s = s"
    if "getPageView (win s) p = Some pv" "pv_div pv = None"
    using that by (simp add: showHighlight_callback_def createOverlayElement_def)
  have res: "showHighlight_callback p LocNull s = Inl TypeError
      \<and> showHighlight_callback p LocUndefined s = Inl TypeError
      \<and> run_task (ShowTask p LocNull) s = s\<lparr>uncaught := uncaught s @ [TypeError]\<rparr>
      \<and> run_task (ShowTask p LocUndefined) s = s\<lparr>uncaught := uncaught s @ [TypeError]\<rparr>
      \<and> (\<exists>e. created_element (createOverlayElement pv (LocObj r) s) = Some e
             \<and> parentNode e = Some d
             \<and> overlay_box e =
                 (let tl = convertToViewportPoint pv (loc_x r) (JNumber (js_add (loc_y r) (loc_height r)));
                      br = convertToViewportPoint pv (JNumber (js_add (loc_x r) (loc_width r))) (loc_y r)
                  in (Math_min (fst tl) (fst br), Math_min (snd tl) (snd br),
                      Math_abs (num_sub (fst br) (fst tl)), Math_abs (num_sub (snd br) (snd tl))))
             \<and> run_task (ShowTask p (LocObj r)) s =
                 s\<lparr>elements := elements s @ [e],
                    frames := frames s @ [length (elements s)],
                    currentOverlay := Some (length (elements s))\<rparr>)"
    if "getPageView (win s) p = Some pv" "pv_div pv = Some d"
    using that
    by (simp add: showHighlight_callback_def createOverlayElement_def created_element_def
          overlay_box_def Let_def)
  have call: "elements (showHighlight p loc s) = elements (clearHighlight s)
      \<and> uncaught (showHighlight p loc s) = uncaught s"
    by (simp add: showHighlight_def Let_def clearHighlight_def split: option.splits)
  have nan: "js_add JUndefined JUndefined = NaN
      \<and> Math_min NaN a = NaN \<and> Math_min a NaN = NaN
      \<and> Math_abs (num_sub NaN a) = NaN \<and> Math_abs (num_sub a NaN) = NaN"
    by (cases a) (simp_all add: js_add_def)
  show ?thesis
    using unres nodiv res call nan by blast
qed

theorem location_is_not_validated_witness:
  "run_task (ShowTask 1 LocNull) (initial one_page_window)
     = (initial one_page_window)\<lparr>uncaught := uncaught (initial one_page_window) @ [TypeError]\<rparr>
   \<and> run_task (ShowTask 2 LocNull) (initial one_page_window) = initial one_page_window
   \<and> currentOverlay (run_task (ShowTask 1 (LocObj empty_object)) (initial one_page_window))
     = Some (length (elements (initial one_page_window)))
   \<and> map overlay_box (elements (run_task (ShowTask 1 (LocObj empty_object)) (initial one_page_window)))
     = [(NaN, NaN, NaN, NaN)]"
proof -
  let ?pv = "\<lparr>pv_div = Some 0, convertToViewportPoint = identity_transform\<rparr>"
  have h: "getPageView (win (initial one_page_window)) 1 = Some ?pv \<and> pv_div ?pv = Some 0"
    by (simp add: initial_def one_page_window_def getPageView_def)
  have u: "getPageView (win (initial one_page_window)) 2 = None"
    by (simp add: initial_def one_page_window_def getPageView_def)
  have n: "run_task (ShowTask 1 LocNull) (initial one_page_window)
     = (initial one_page_window)\<lparr>uncaught := uncaught (initial one_page_window) @ [TypeError]\<rparr>"
    using h location_is_not_validated [where s = "initial one_page_window" and p = 1 and pv = ?pv
        and d = 0]
    by blast
  have m: "run_task (ShowTask 2 LocNull) (initial one_page_window) = initial one_page_window"
    using u location_is_not_validated [where s = "initial one_page_window" and p = 2
        and loc = LocNull]
    by blast
  obtain e where e: "overlay_box e =
                 (let tl = identity_transform (loc_x empty_object)
                             (JNumber (js_add (loc_y empty_object) (loc_height empty_object)));
                      br = identity_transform
                             (JNumber (js_add (loc_x empty_object) (loc_width empty_object)))
                             (loc_y empty_object)
                  in (Math_min (fst tl) (fst br), Math_min (snd tl) (snd br),
                      Math_abs (num_sub (fst br) (fst tl)), Math_abs (num_sub (snd br) (snd tl))))"
      and r: "run_task (ShowTask 1 (LocObj empty_object)) (initial one_page_window) =
                 (initial one_page_window)\<lparr>elements := elements (initial one_page_window) @ [e],
                    frames := frames (initial one_page_window) @ [length (elements (initial one_page_window))],
                    currentOverlay := Some (length (elements (initial one_page_window)))\<rparr>"
    using h location_is_not_validated [where s = "initial one_page_window" and p = 1 and pv = ?pv
        and d = 0 and r = empty_object]
    by auto
  have b: "overlay_box e = (NaN, NaN, NaN, NaN)"
    using e by (simp add: empty_object_def identity_transform_def js_add_def Let_def)
  have el: "elements (initial one_page_window) = []"
    by (simp add: initial_def)
  have c: "currentOverlay (run_task (ShowTask 1 (LocObj empty_object)) (initial one_page_window))
     = Some (length (elements (initial one_page_window)))
   \<and> map overlay_box (elements (run_task (ShowTask 1 (LocObj empty_object)) (initial one_page_window)))
     = [(NaN, NaN, NaN, NaN)]"
    unfolding r using b el by simp
  show ?thesis
    using n m c by blast
qed

section \<open>The two delays\<close>

lemma attached_append:
  assumes "elements s' = elements s @ [e]"
  shows "attached s' = attached s @ (if parentNode e \<noteq> None then [length (elements s)] else [])"
proof -
  have "filter (\<lambda>i. parentNode ((elements s @ [e]) ! i) \<noteq> None) [0 ..< length (elements s)]
          = filter (\<lambda>i. parentNode (elements s ! i) \<noteq> None) [0 ..< length (elements s)]"
    by (intro filter_cong) (simp_all add: nth_append)
  then show ?thesis
    using assms by (simp add: attached_def)
qed

lemma run_ShowTask_resolved:
  assumes "getPageView (win s) p = Some pv" and "pv_div pv = Some dv"
  shows "\<exists>e. created_element (createOverlayElement pv (LocObj r) s) = Some e
           \<and> parentNode e = Some dv
           \<and> run_task (ShowTask p (LocObj r)) s =
               s\<lparr>elements := elements s @ [e], frames := frames s @ [length (elements s)],
                  currentOverlay := Some (length (elements s))\<rparr>"
  using assms
  by (simp add: showHighlight_callback_def createOverlayElement_def created_element_def Let_def)

lemma settle_then_create:
  assumes idle: "timers s = []" and none: "currentOverlay s = None"
    and pv: "getPageView (win s) p = Some pv" and dv: "pv_div pv = Some dv"
  shows "(d < 500 \<longrightarrow>
            elements (advance d (showHighlight p (LocObj r) s)) = elements s
          \<and> currentOverlay (advance d (showHighlight p (LocObj r) s)) = None)
       \<and> (500 \<le> d \<longrightarrow>
            attached (advance d (showHighlight p (LocObj r) s)) = attached s @ [length (elements s)]
          \<and> currentOverlay (advance d (showHighlight p (LocObj r) s)) = Some (length (elements s)))"
proof -
  let ?s0 = "s\<lparr>now := now s + 500\<rparr>"
  have sh: "showHighlight p (LocObj r) s = s\<lparr>timers := [(now s + 500, ShowTask p (LocObj r))]\<rparr>"
    using idle none by (simp add: showHighlight_no_overlay)
  have t: "timers (showHighlight p (LocObj r) s) = [(now s + 500, ShowTask p (LocObj r))]"
    by (simp add: sh)
  have strip: "(showHighlight p (LocObj r) s)\<lparr>timers := [], now := now s + 500\<rparr> = ?s0"
    using idle by (simp add: sh)
  have n: "now (showHighlight p (LocObj r) s) = now s"
    by (simp add: sh)
  have adv: "advance d (showHighlight p (LocObj r) s) =
      (if now s + 500 \<le> now s + d then (run_task (ShowTask p (LocObj r)) ?s0)\<lparr>now := now s + d\<rparr>
       else (showHighlight p (LocObj r) s)\<lparr>now := now s + d\<rparr>)"
    unfolding advance_one_timer [OF t] strip n by simp
  have "getPageView (win ?s0) p = Some pv"
    using pv by simp
  then obtain e where e: "parentNode e = Some dv"
    and run: "run_task (ShowTask p (LocObj r)) ?s0 =
               ?s0\<lparr>elements := elements ?s0 @ [e], frames := frames ?s0 @ [length (elements ?s0)],
                  currentOverlay := Some (length (elements ?s0))\<rparr>"
    using run_ShowTask_resolved [OF _ dv, of ?s0 p r] by blast
  have early: "elements (advance d (showHighlight p (LocObj r) s)) = elements s
          \<and> currentOverlay (advance d (showHighlight p (LocObj r) s)) = None"
    if "d < 500"
    using that none unfolding adv by (simp add: sh)
  have late: "attached (advance d (showHighlight p (LocObj r) s)) = attached s @ [length (elements s)]
          \<and> currentOverlay (advance d (showHighlight p (LocObj r) s)) = Some (length (elements s))"
    if "500 \<le> d"
  proof -
    have a: "advance d (showHighlight p (LocObj r) s) =
               (run_task (ShowTask p (LocObj r)) ?s0)\<lparr>now := now s + d\<rparr>"
      using that unfolding adv by simp
    have "elements (advance d (showHighlight p (LocObj r) s)) = elements s @ [e]"
      unfolding a run by simp
    then have "attached (advance d (showHighlight p (LocObj r) s)) = attached s @ [length (elements s)]"
      using e by (simp add: attached_append)
    moreover have "currentOverlay (advance d (showHighlight p (LocObj r) s)) = Some (length (elements s))"
      unfolding a run by simp
    ultimately show ?thesis by simp
  qed
  show ?thesis
    using early late by blast
qed

text \<open>
  Claim C8. The component sets exactly two kinds of timer, and cancels none.
  \<open>showHighlight\<close> adds one due 500 ms after the call, whose callback resolves the page
  view and creates the overlay; \<open>clearHighlight\<close> sets the opacity of the overlay to \<open>"0"\<close>
  at the call and adds one due 300 ms later, whose callback removes the overlay from the
  document. Both keep every timer already pending, no callback and no animation frame
  changes the pending timers, and time passing takes away exactly the timers that are
  due. With nothing else pending, no element is created before the 500 ms are over and
  the overlay is attached from then on; the faded overlay stays in the document, with
  opacity \<open>"0"\<close>, before the 300 ms are over and is out of it from then on.
\<close>

theorem two_fixed_delays:
  "timers (showHighlight p loc s) = timers (clearHighlight s) @ [(now s + 500, ShowTask p loc)]
   \<and> timers (clearHighlight s) =
       timers s @ (case currentOverlay s of None \<Rightarrow> [] | Some ov \<Rightarrow> [(now s + 300, RemoveTask)])
   \<and> timers (run_task k s) = timers s
   \<and> timers (animationFrame s) = timers s
   \<and> timers (advance d s) = filter (\<lambda>tk. \<not> fst tk \<le> now s + d) (timers s)
   \<and> (timers s = [] \<and> currentOverlay s = None \<longrightarrow>
        advance d (showHighlight p loc s) =
          (if d < 500 then (showHighlight p loc s)\<lparr>now := now s + d\<rparr>
           else (run_task (ShowTask p loc) (s\<lparr>now := now s + 500\<rparr>))\<lparr>now := now s + d\<rparr>))
   \<and> (timers s = [] \<and> currentOverlay s = None \<and> getPageView (win s) p = Some pv
        \<and> pv_div pv = Some dv \<longrightarrow>
        (d < 500 \<longrightarrow>
            elements (advance d (showHighlight p (LocObj r) s)) = elements s
          \<and> currentOverlay (advance d (showHighlight p (LocObj r) s)) = None)
      \<and> (500 \<le> d \<longrightarrow>
            attached (advance d (showHighlight p (LocObj r) s)) = attached s @ [length (elements s)]
          \<and> currentOverlay (advance d (showHighlight p (LocObj r) s)) = Some (length (elements s))))
   \<and> (currentOverlay s = Some ov \<and> ov \<in> set (attached s) \<longrightarrow>
        style_opacity (elements (clearHighlight s) ! ov) = Some ''0''
      \<and> ov \<in> set (attached (clearHighlight s)))
   \<and> (timers s = [] \<and> currentOverlay s = Some ov \<longrightarrow>
        advance d (clearHighlight s) =
          (if d < 300 then (clearHighlight s)\<lparr>now := now s + d\<rparr>
           else (clearHighlight_callback ((clearHighlight s)\<lparr>timers := [], now := now s + 300\<rparr>))
                  \<lparr>now := now s + d\<rparr>))
   \<and> (timers s = [] \<and> currentOverlay s = Some ov \<and> ov \<in> set (attached s) \<longrightarrow>
        (d < 300 \<longrightarrow>
            ov \<in> set (attached (advance d (clearHighlight s)))
          \<and> style_opacity (elements (advance d (clearHighlight s)) ! ov) = Some ''0''
          \<and> currentOverlay (advance d (clearHighlight s)) = Some ov)
      \<and> (300 \<le> d \<longrightarrow>
            ov \<notin> set (attached (advance d (clearHighlight s)))
          \<and> currentOverlay (advance d (clearHighlight s)) = None
          \<and> timers (advance d (clearHighlight s)) = []))"
proof -
  have settle: "advance d (showHighlight p loc s) =
          (if d < 500 then (showHighlight p loc s)\<lparr>now := now s + d\<rparr>
           else (run_task (ShowTask p loc) (s\<lparr>now := now s + 500\<rparr>))\<lparr>now := now s + d\<rparr>)"
    if idle: "timers s = []" and none: "currentOverlay s = None"
  proof -
    have sh: "showHighlight p loc s = s\<lparr>timers := [(now s + 500, ShowTask p loc)]\<rparr>"
      using idle none by (simp add: showHighlight_no_overlay)
    have t: "timers (showHighlight p loc s) = [(now s + 500, ShowTask p loc)]"
      by (simp add: sh)
    have same: "(showHighlight p loc s)\<lparr>timers := [], now := now s + 500\<rparr> = s\<lparr>now := now s + 500\<rparr>"
      using idle by (simp add: sh)
    have n: "now (showHighlight p loc s) = now s"
      by (simp add: sh)
    show ?thesis
      unfolding advance_one_timer [OF t] same n by auto
  qed
  have create: "(d < 500 \<longrightarrow>
            elements (advance d (showHighlight p (LocObj r) s)) = elements s
          \<and> currentOverlay (advance d (showHighlight p (LocObj r) s)) = None)
      \<and> (500 \<le> d \<longrightarrow>
            attached (advance d (showHighlight p (LocObj r) s)) = attached s @ [length (elements s)]
          \<and> currentOverlay (advance d (showHighlight p (LocObj r) s)) = Some (length (elements s)))"
    if "timers s = []" "currentOverlay s = None" "getPageView (win s) p = Some pv"
      "pv_div pv = Some dv"
    using that by (rule settle_then_create)
  have opacity: "style_opacity (elements (clearHighlight s) ! ov) = Some ''0''
      \<and> ov \<in> set (attached (clearHighlight s))"
    if c: "currentOverlay s = Some ov" and a: "ov \<in> set (attached s)"
  proof -
    have "ov < length (elements s)"
      using a by (simp add: attached_iff)
    then show ?thesis
      using c a by (simp add: opacity_clearHighlight attached_clearHighlight)
  qed
  have fade: "advance d (clearHighlight s) =
          (if d < 300 then (clearHighlight s)\<lparr>now := now s + d\<rparr>
           else (clearHighlight_callback ((clearHighlight s)\<lparr>timers := [], now := now s + 300\<rparr>))
                  \<lparr>now := now s + d\<rparr>)"
    if idle: "timers s = []" and cur: "currentOverlay s = Some ov"
  proof -
    have t: "timers (clearHighlight s) = [(now s + 300, RemoveTask)]"
      using idle cur by (simp add: timers_clearHighlight)
    show ?thesis
      unfolding advance_one_timer [OF t] now_clearHighlight by auto
  qed
  have before: "ov \<in> set (attached (advance d (clearHighlight s)))
          \<and> style_opacity (elements (advance d (clearHighlight s)) ! ov) = Some ''0''
          \<and> currentOverlay (advance d (clearHighlight s)) = Some ov"
    if idle: "timers s = []" and cur: "currentOverlay s = Some ov" and a: "ov \<in> set (attached s)"
      and early: "d < 300"
  proof -
    have l: "ov < length (elements s)"
      using a by (simp add: attached_iff)
    have "advance d (clearHighlight s) = (clearHighlight s)\<lparr>now := now s + d\<rparr>"
      using early by (simp add: advance_clearHighlight_idle [OF cur idle])
    then show ?thesis
      using cur a l
      by (simp add: attached_now attached_clearHighlight opacity_clearHighlight)
         (simp add: clearHighlight_def)
  qed
  have after: "ov \<notin> set (attached (advance d (clearHighlight s)))
          \<and> currentOverlay (advance d (clearHighlight s)) = None
          \<and> timers (advance d (clearHighlight s)) = []"
    if idle: "timers s = []" and cur: "currentOverlay s = Some ov" and late: "300 \<le> d"
    using cur idle late by (rule removed_after_delay)
  have tm: "timers (showHighlight p loc s) = timers (clearHighlight s) @ [(now s + 500, ShowTask p loc)]
   \<and> timers (clearHighlight s) =
       timers s @ (case currentOverlay s of None \<Rightarrow> [] | Some ov \<Rightarrow> [(now s + 300, RemoveTask)])
   \<and> timers (run_task k s) = timers s
   \<and> timers (animationFrame s) = timers s
   \<and> timers (advance d s) = filter (\<lambda>tk. \<not> fst tk \<le> now s + d) (timers s)"
    by (simp add: timers_showHighlight timers_clearHighlight timers_run_task
          timers_animationFrame timers_advance)
  show ?thesis
    using tm settle create opacity fade before after by blast
qed

theorem two_fixed_delays_witness:
  "timers first_show = [(500, ShowTask 1 (LocObj example_rect))]
   \<and> elements (advance 499 first_show) = []
   \<and> attached (advance 500 first_show) = [0]
   \<and> currentOverlay (advance 500 first_show) = Some 0
   \<and> timers (clearHighlight shown) = [(800, RemoveTask)]
   \<and> style_opacity (elements (clearHighlight shown) ! 0) = Some ''0''
   \<and> 0 \<in> set (attached (advance 299 (clearHighlight shown)))
   \<and> 0 \<notin> set (attached (advance 300 (clearHighlight shown)))
   \<and> currentOverlay (advance 300 (clearHighlight shown)) = None"
proof -
  let ?pv = "\<lparr>pv_div = Some 0, convertToViewportPoint = identity_transform\<rparr>"
  have a: "timers (initial one_page_window) = [] \<and> currentOverlay (initial one_page_window) = None
           \<and> now (initial one_page_window) = 0 \<and> elements (initial one_page_window) = []
           \<and> attached (initial one_page_window) = []
           \<and> getPageView (win (initial one_page_window)) 1 = Some ?pv \<and> pv_div ?pv = Some 0"
    by (simp add: initial_def one_page_window_def getPageView_def attached_def)
  have b: "timers shown = [] \<and> currentOverlay shown = Some 0 \<and> now shown = 500
           \<and> 0 \<in> set (attached shown)"
    by (simp add: shown_def first_show_def run_defs)
  have n: "(499::nat) < 500 \<and> (500::nat) \<le> 500 \<and> (299::nat) < 300 \<and> (300::nat) \<le> 300"
    by simp
  have t1: "timers first_show = [(500, ShowTask 1 (LocObj example_rect))]"
    using a two_fixed_delays [where p = 1 and loc = "LocObj example_rect"
        and s = "initial one_page_window"]
    by (simp add: first_show_def clearHighlight_no_overlay)
  have e: "elements (advance 499 first_show) = []"
    using a n two_fixed_delays [where p = 1 and r = example_rect
        and s = "initial one_page_window" and d = 499 and pv = ?pv and dv = 0]
    unfolding first_show_def by metis
  have f: "attached (advance 500 first_show) = [0] \<and> currentOverlay (advance 500 first_show) = Some 0"
    using a n two_fixed_delays [where p = 1 and r = example_rect
        and s = "initial one_page_window" and d = 500 and pv = ?pv and dv = 0]
    unfolding first_show_def by (metis append_Nil list.size(3))
  have t2: "timers (clearHighlight shown) = [(800, RemoveTask)]"
    using b two_fixed_delays [where s = shown] by simp
  have g: "style_opacity (elements (clearHighlight shown) ! 0) = Some ''0''
         \<and> 0 \<in> set (attached (advance 299 (clearHighlight shown)))"
    using b n two_fixed_delays [where s = shown and ov = 0 and d = 299] by blast
  have h: "0 \<notin> set (attached (advance 300 (clearHighlight shown)))
         \<and> currentOverlay (advance 300 (clearHighlight shown)) = None"
    using b n two_fixed_delays [where s = shown and ov = 0 and d = 300] by blast
  show ?thesis
    using t1 e f t2 g h by blast
qed

end
